theory Spec2Isabelle
  imports Complex_Main "HOL-Library.Word"
begin

section \<open>DCS-BIOS bridge daemon: data model\<close>

text \<open>
  The development follows \<^verbatim>\<open>src/dcsbios_daemon.py\<close>. The classes
  \<^verbatim>\<open>DeviceConfig\<close> and \<^verbatim>\<open>DCSBIOSManager\<close> of
  \<^verbatim>\<open>src/dcsbios_tui.py\<close> are the same code up to the wording of
  three log messages.
\<close>

subsection \<open>Python values\<close>

text \<open>
  \<^verbatim>\<open>DeviceConfig.from_dict\<close> copies whatever the dictionary holds
  into the descriptor, so the four configuration fields carry dynamically typed
  values. The scalar values that a configuration file can hold are modelled
  (floats and nested containers are left out).
\<close>

datatype pyval = PNone | PBool bool | PInt int | PStr string

text \<open>Truthiness, as \<^verbatim>\<open>if device.enabled:\<close> evaluates it.\<close>

fun truthy :: "pyval \<Rightarrow> bool" where
  "truthy PNone = False"
| "truthy (PBool b) = b"
| "truthy (PInt i) = (i \<noteq> 0)"
| "truthy (PStr s) = (s \<noteq> [])"

text \<open>Decimal rendering of integers, as \<^verbatim>\<open>str\<close> and f-strings do.\<close>

definition digit_char :: "nat \<Rightarrow> char" where
  "digit_char n = ''0123456789'' ! n"

fun str_nat :: "nat \<Rightarrow> string" where
  "str_nat n =
     (if n < 10 then [digit_char n]
      else str_nat (n div 10) @ [digit_char (n mod 10)])"

declare str_nat.simps [simp del]

definition str_int :: "int \<Rightarrow> string" where
  "str_int i = (if i < 0 then CHR ''-'' # str_nat (nat (- i)) else str_nat (nat i))"

fun py_str :: "pyval \<Rightarrow> string" where
  "py_str PNone = ''None''"
| "py_str (PBool b) = (if b then ''True'' else ''False'')"
| "py_str (PInt i) = str_int i"
| "py_str (PStr s) = s"

subsection \<open>Device descriptors\<close>

type_synonym pydict = "string \<rightharpoonup> pyval"

text \<open>
  \<^verbatim>\<open>time.time()\<close> values are opaque to the program; they are only stored.
\<close>

type_synonym timestamp = real

record DeviceConfig =
  name :: pyval
  port :: pyval
  baudrate :: pyval
  enabled :: pyval
  status :: string
  last_activity :: "timestamp option"

text \<open>\<^verbatim>\<open>DeviceConfig.__init__(name, port, baudrate, enabled)\<close>\<close>

definition DeviceConfig_init :: "pyval \<Rightarrow> pyval \<Rightarrow> pyval \<Rightarrow> pyval \<Rightarrow> DeviceConfig" where
  "DeviceConfig_init n p b e =
     \<lparr> name = n, port = p, baudrate = b, enabled = e,
       status = ''Stopped'', last_activity = None \<rparr>"

text \<open>The defaults of the constructor's keyword parameters.\<close>

definition DeviceConfig_init2 :: "pyval \<Rightarrow> pyval \<Rightarrow> DeviceConfig" where
  "DeviceConfig_init2 n p = DeviceConfig_init n p (PInt 250000) (PBool True)"

definition to_dict :: "DeviceConfig \<Rightarrow> pydict" where
  "to_dict d =
     [''name'' \<mapsto> name d, ''port'' \<mapsto> port d,
      ''baudrate'' \<mapsto> baudrate d, ''enabled'' \<mapsto> enabled d]"

text \<open>\<^verbatim>\<open>dict.get(key, default)\<close>\<close>

definition dict_get :: "pydict \<Rightarrow> string \<Rightarrow> pyval \<Rightarrow> pyval" where
  "dict_get data k dflt = (case data k of None \<Rightarrow> dflt | Some v \<Rightarrow> v)"

definition from_dict :: "pydict \<Rightarrow> DeviceConfig" where
  "from_dict data =
     DeviceConfig_init
       (dict_get data ''name'' (PStr ''Unknown''))
       (dict_get data ''port'' (PStr ''''))
       (dict_get data ''baudrate'' (PInt 250000))
       (dict_get data ''enabled'' (PBool True))"

section \<open>The bridge manager\<close>

subsection \<open>The environment: bytes, exceptions, serial ports, sockets, threads\<close>

type_synonym byte = "8 word"
type_synonym bytes = "byte list"
type_synonym address = "string \<times> int"

text \<open>
  Exceptions raised by library calls, by the classes that the handlers of
  \<^verbatim>\<open>serial_to_udp\<close> tell apart; the string is \<^verbatim>\<open>str(e)\<close>.
\<close>

datatype exc = SerialException string | PermissionError string | OtherException string

text \<open>
  A \<^verbatim>\<open>serial.Serial\<close> object: whether it is open, the arguments of every
  \<^verbatim>\<open>write\<close> call made on it, and the arguments of those calls that returned.
\<close>

record serial =
  is_open :: bool
  write_calls :: "bytes list"
  written :: "bytes list"

definition Serial_new :: serial where
  "Serial_new = \<lparr> is_open = True, write_calls = [], written = [] \<rparr>"

text \<open>An entry of \<^verbatim>\<open>active_serial_ports\<close>; the device is referred to by its
  position in \<^verbatim>\<open>self.devices\<close>.\<close>

record entry =
  entry_name :: pyval
  entry_port :: serial
  entry_device :: nat

text \<open>The UDP socket object, with the datagrams it has sent.\<close>

record udp_socket =
  sock_reuse :: bool
  sock_bound :: "address option"
  sock_groups :: "string list"
  sock_closed :: bool
  sock_sent :: "(bytes \<times> address) list"

definition socket_new :: udp_socket where
  "socket_new = \<lparr> sock_reuse = False, sock_bound = None, sock_groups = [],
                  sock_closed = False, sock_sent = [] \<rparr>"

text \<open>A started thread, by its target: \<^verbatim>\<open>udp_to_serial\<close>, or
  \<^verbatim>\<open>serial_to_udp\<close> on the device at the given position.\<close>

datatype thread = UdpToSerial | SerialToUdp nat

subsection \<open>Manager state\<close>

record DCSBIOSManager =
  devices :: "DeviceConfig list"
  running :: bool
  threads :: "thread list"
  active_serial_ports :: "entry list"
  udp_sock :: "udp_socket option"
  status_messages :: "string list"
  max_messages :: int
  dcs_pc_ip :: string
  udp_ip :: string
  udp_port :: int
  udp_dest_port :: int
  multicast_group :: string
  auto_start :: bool
  scheduled_reboot_time :: "string option"

text \<open>The assignments of \<^verbatim>\<open>DCSBIOSManager.__init__\<close>, before it loads the
  configuration file.\<close>

definition DCSBIOSManager_init :: DCSBIOSManager where
  "DCSBIOSManager_init =
     \<lparr> devices = [], running = False, threads = [], active_serial_ports = [],
       udp_sock = None, status_messages = [], max_messages = 10,
       dcs_pc_ip = ''192.168.1.2'', udp_ip = ''0.0.0.0'', udp_port = 5010,
       udp_dest_port = 7778, multicast_group = ''239.255.50.10'',
       auto_start = False, scheduled_reboot_time = None \<rparr>"

text \<open>\<^verbatim>\<open>add_message(msg)\<close>; the second argument is what
  \<^verbatim>\<open>time.strftime("%H:%M:%S")\<close> returns.\<close>

definition log_entry :: "string \<Rightarrow> string \<Rightarrow> string" where
  "log_entry timestamp msg = ''['' @ timestamp @ ''] '' @ msg"

definition add_message :: "DCSBIOSManager \<Rightarrow> string \<Rightarrow> string \<Rightarrow> DCSBIOSManager" where
  "add_message m timestamp msg =
     (let msgs = status_messages m @ [log_entry timestamp msg]
      in m\<lparr>status_messages :=
           (if int (length msgs) > max_messages m then tl msgs else msgs)\<rparr>)"

subsection \<open>Network endpoint\<close>

text \<open>How far \<^verbatim>\<open>setup_udp\<close> gets before a call raises.\<close>

datatype setup_io =
    SocketRaises string
  | ReuseAddrRaises string
  | BindRaises string
  | JoinRaises string
  | SetupReturns

definition setup_error :: "string \<Rightarrow> string" where
  "setup_error e = ''UDP setup error: '' @ e"

definition setup_udp :: "DCSBIOSManager \<Rightarrow> setup_io \<Rightarrow> string \<Rightarrow> DCSBIOSManager" where
  "setup_udp m io ts =
     (case io of
        SocketRaises e \<Rightarrow> add_message m ts (setup_error e)
      | ReuseAddrRaises e \<Rightarrow>
          add_message (m\<lparr>udp_sock := Some socket_new\<rparr>) ts (setup_error e)
      | BindRaises e \<Rightarrow>
          add_message (m\<lparr>udp_sock := Some (socket_new\<lparr>sock_reuse := True\<rparr>)\<rparr>) ts
            (setup_error e)
      | JoinRaises e \<Rightarrow>
          add_message
            (m\<lparr>udp_sock := Some (socket_new\<lparr>sock_reuse := True,
                    sock_bound := Some (udp_ip m, udp_port m)\<rparr>)\<rparr>) ts
            (setup_error e)
      | SetupReturns \<Rightarrow>
          add_message
            (m\<lparr>udp_sock := Some (socket_new\<lparr>sock_reuse := True,
                    sock_bound := Some (udp_ip m, udp_port m),
                    sock_groups := [multicast_group m]\<rparr>)\<rparr>) ts
            (''UDP socket listening on port '' @ str_int (udp_port m)))"

definition is_dcsbios_export_packet :: "bytes \<Rightarrow> bool" where
  "is_dcsbios_export_packet data =
     (length data \<ge> 4 \<and> data ! 0 = 0x55 \<and> data ! 1 = 0x55
      \<and> data ! 2 = 0x55 \<and> data ! 3 = 0x55)"

subsection \<open>Assignments to a device's runtime fields\<close>

definition set_status :: "DeviceConfig list \<Rightarrow> nat \<Rightarrow> string \<Rightarrow> DeviceConfig list" where
  "set_status ds i s = ds[i := (ds ! i)\<lparr>status := s\<rparr>]"

definition set_last_activity ::
  "DeviceConfig list \<Rightarrow> nat \<Rightarrow> timestamp \<Rightarrow> DeviceConfig list" where
  "set_last_activity ds i t = ds[i := (ds ! i)\<lparr>last_activity := Some t\<rparr>]"

subsection \<open>Serial exporter\<close>

text \<open>\<^verbatim>\<open>data.replace(old, new)\<close> on bytes: occurrences of \<^verbatim>\<open>old\<close> are found
  from the left and do not overlap.\<close>

function bytes_scan :: "bytes \<Rightarrow> bytes \<Rightarrow> bytes \<Rightarrow> bytes" where
  "bytes_scan old new [] = []"
| "bytes_scan old new (x # xs) =
     (if old \<noteq> [] \<and> take (length old) (x # xs) = old
      then new @ bytes_scan old new (drop (length old) (x # xs))
      else x # bytes_scan old new xs)"
  by pat_completeness auto
termination
  by (relation "measure (\<lambda>(old, new, xs). length xs)") auto

definition bytes_replace :: "bytes \<Rightarrow> bytes \<Rightarrow> bytes \<Rightarrow> bytes" where
  "bytes_replace data old new =
     (if old = [] then new @ concat (map (\<lambda>x. x # new) data)
      else bytes_scan old new data)"

text \<open>\<^verbatim>\<open>data.replace(b'\r\n', b'\n').replace(b'\r', b'\n')\<close>\<close>

definition clean_data :: "bytes \<Rightarrow> bytes" where
  "clean_data data = bytes_replace (bytes_replace data [13, 10] [10]) [13] [10]"

text \<open>The normalisation in the specification's words: every CR-LF pair becomes LF,
  then every remaining CR becomes LF.\<close>

fun crlf_to_lf :: "bytes \<Rightarrow> bytes" where
  "crlf_to_lf (a # b # xs) =
     (if a = 13 \<and> b = 10 then 10 # crlf_to_lf xs else a # crlf_to_lf (b # xs))"
| "crlf_to_lf xs = xs"

definition cr_to_lf :: "bytes \<Rightarrow> bytes" where
  "cr_to_lf xs = map (\<lambda>b. if b = 13 then 10 else b) xs"

definition normalize_line_endings :: "bytes \<Rightarrow> bytes" where
  "normalize_line_endings xs = cr_to_lf (crlf_to_lf xs)"

text \<open>What the library calls of one pass through the loop of
  \<^verbatim>\<open>serial_to_udp\<close> do: \<^verbatim>\<open>serial.Serial(...)\<close>,
  \<^verbatim>\<open>ser.in_waiting\<close>, \<^verbatim>\<open>ser.read(ser.in_waiting)\<close>, the operating
  system's answer to \<^verbatim>\<open>sendto\<close>, and the two clock readings.\<close>

record exporter_io =
  x_open :: "exc option"
  x_in_waiting :: "exc + nat"
  x_read :: "exc + bytes"
  x_sendto :: "exc option"
  x_now :: timestamp
  x_ts :: string

text \<open>\<^verbatim>\<open>self.udp_sock.sendto(data, dest)\<close>: an attribute error when there is no
  socket, an error on a closed socket, otherwise as the operating system decides.\<close>

definition sendto ::
  "udp_socket option \<Rightarrow> exc option \<Rightarrow> bytes \<Rightarrow> address \<Rightarrow> exc + udp_socket" where
  "sendto so os data dest =
     (case so of
        None \<Rightarrow> Inl (OtherException ''AttributeError'')
      | Some s \<Rightarrow>
          if sock_closed s then Inl (OtherException ''OSError'')
          else (case os of
                  Some e \<Rightarrow> Inl e
                | None \<Rightarrow> Inr (s\<lparr>sock_sent := sock_sent s @ [(data, dest)]\<rparr>)))"

definition needs_open :: "serial option \<Rightarrow> bool" where
  "needs_open ser = (case ser of None \<Rightarrow> True | Some s \<Rightarrow> \<not> is_open s)"

text \<open>The first statement of the \<^verbatim>\<open>try\<close> block. The result is the state, the
  local variable \<^verbatim>\<open>ser\<close>, and the exception raised, if any.\<close>

definition try_connect ::
  "DCSBIOSManager \<Rightarrow> nat \<Rightarrow> serial option \<Rightarrow> exporter_io
     \<Rightarrow> (DCSBIOSManager \<times> serial option) \<times> exc option" where
  "try_connect m i ser io =
     (if needs_open ser then
        (case x_open io of
           Some e \<Rightarrow> ((m, ser), Some e)
         | None \<Rightarrow>
             ((add_message (m\<lparr>devices := set_status (devices m) i ''Connected''\<rparr>) (x_ts io)
                 (py_str (name (devices m ! i)) @ '' connected on ''
                    @ py_str (port (devices m ! i))),
               Some Serial_new), None))
      else ((m, ser), None))"

text \<open>The second statement of the \<^verbatim>\<open>try\<close> block.\<close>

definition try_relay ::
  "DCSBIOSManager \<Rightarrow> nat \<Rightarrow> exporter_io \<Rightarrow> DCSBIOSManager \<times> exc option" where
  "try_relay m i io =
     (case x_in_waiting io of
        Inl e \<Rightarrow> (m, Some e)
      | Inr n \<Rightarrow>
          if n \<noteq> 0 then
            (case x_read io of
               Inl e \<Rightarrow> (m, Some e)
             | Inr data \<Rightarrow>
                 if data \<noteq> [] then
                   (case sendto (udp_sock m) (x_sendto io) (clean_data data)
                           (dcs_pc_ip m, udp_dest_port m) of
                      Inl e \<Rightarrow> (m, Some e)
                    | Inr s \<Rightarrow>
                        (m\<lparr>udp_sock := Some s,
                           devices := set_last_activity (devices m) i (x_now io)\<rparr>, None))
                 else (m, None))
          else (m, None))"

text \<open>The two handlers; the first one also closes and forgets the port.\<close>

definition handle_exc ::
  "DCSBIOSManager \<Rightarrow> nat \<Rightarrow> serial option \<Rightarrow> exc \<Rightarrow> DCSBIOSManager \<times> serial option" where
  "handle_exc m i ser e =
     (case e of
        OtherException _ \<Rightarrow> (m\<lparr>devices := set_status (devices m) i ''Error''\<rparr>, ser)
      | _ \<Rightarrow> (m\<lparr>devices := set_status (devices m) i ''Error''\<rparr>, None))"

definition serial_to_udp_iter ::
  "DCSBIOSManager \<Rightarrow> nat \<Rightarrow> serial option \<Rightarrow> exporter_io
     \<Rightarrow> DCSBIOSManager \<times> serial option" where
  "serial_to_udp_iter m i ser io =
     (case try_connect m i ser io of
        ((m1, ser1), Some e) \<Rightarrow> handle_exc m1 i ser1 e
      | ((m1, ser1), None) \<Rightarrow>
          (case try_relay m1 i io of
             (m2, Some e) \<Rightarrow> handle_exc m2 i ser1 e
           | (m2, None) \<Rightarrow> (m2, ser1)))"

text \<open>After the loop: the port is closed and the status reset.\<close>

definition serial_to_udp_exit :: "DCSBIOSManager \<Rightarrow> nat \<Rightarrow> DCSBIOSManager" where
  "serial_to_udp_exit m i = m\<lparr>devices := set_status (devices m) i ''Stopped''\<rparr>"

text \<open>The loop, run on the outcomes of as many passes as the list holds. When the list
  ends while the flag is still set, the thread is still in its loop.\<close>

fun serial_to_udp_loop ::
  "DCSBIOSManager \<Rightarrow> nat \<Rightarrow> serial option \<Rightarrow> exporter_io list
     \<Rightarrow> DCSBIOSManager \<times> serial option" where
  "serial_to_udp_loop m i ser [] =
     (if running m then (m, ser) else (serial_to_udp_exit m i, None))"
| "serial_to_udp_loop m i ser (io # ios) =
     (if running m
      then (case serial_to_udp_iter m i ser io of (m', ser') \<Rightarrow> serial_to_udp_loop m' i ser' ios)
      else (serial_to_udp_exit m i, None))"

definition serial_to_udp ::
  "DCSBIOSManager \<Rightarrow> nat \<Rightarrow> exporter_io list \<Rightarrow> DCSBIOSManager \<times> serial option" where
  "serial_to_udp m i ios =
     (if \<not> truthy (enabled (devices m ! i)) then (m, None)
      else serial_to_udp_loop (m\<lparr>devices := set_status (devices m) i ''Connecting''\<rparr>)
             i None ios)"

subsection \<open>Network importer\<close>

text \<open>What \<^verbatim>\<open>serial.Serial(...)\<close> does for the device at each position when
  \<^verbatim>\<open>udp_to_serial\<close> opens the ports (the text of the exception, if it raises),
  and the clock readings of the log entries.\<close>

record opener_io =
  o_open :: "nat \<Rightarrow> string option"
  o_ts :: "nat \<Rightarrow> string"

fun open_ports ::
  "opener_io \<Rightarrow> nat \<Rightarrow> DeviceConfig list \<Rightarrow> DCSBIOSManager \<Rightarrow> DCSBIOSManager" where
  "open_ports io k [] m = m"
| "open_ports io k (d # ds) m =
     open_ports io (Suc k) ds
       (if truthy (enabled d) then
          (case o_open io k of
             None \<Rightarrow>
               add_message
                 (m\<lparr>active_serial_ports := active_serial_ports m @
                       [\<lparr> entry_name = name d, entry_port = Serial_new, entry_device = k \<rparr>]\<rparr>)
                 (o_ts io k) (''Opened '' @ py_str (name d) @ '' for UDP forwarding'')
           | Some e \<Rightarrow>
               add_message m (o_ts io k)
                 (''Could not open '' @ py_str (name d) @ '': '' @ e))
        else m)"

definition udp_to_serial_open :: "DCSBIOSManager \<Rightarrow> opener_io \<Rightarrow> DCSBIOSManager" where
  "udp_to_serial_open m io = open_ports io 0 (devices m) (m\<lparr>active_serial_ports := []\<rparr>)"

text \<open>One pass through the loop: what \<^verbatim>\<open>recvfrom(1024)\<close> returns or raises on a
  usable socket, whether \<^verbatim>\<open>ser.write\<close> raises on the entry at each position, and
  the clock.\<close>

record importer_io =
  r_recv :: "exc + (bytes \<times> address)"
  r_write_raises :: "nat \<Rightarrow> bool"
  r_now :: timestamp

definition recvfrom :: "udp_socket option \<Rightarrow> importer_io \<Rightarrow> exc + (bytes \<times> address)" where
  "recvfrom so io =
     (case so of
        None \<Rightarrow> Inl (OtherException ''AttributeError'')
      | Some s \<Rightarrow> if sock_closed s then Inl (OtherException ''OSError'') else r_recv io)"

text \<open>The body of the \<^verbatim>\<open>for entry in self.active_serial_ports\<close> loop, for the
  entry at position \<open>k\<close>.\<close>

definition write_entry ::
  "bytes \<Rightarrow> importer_io \<Rightarrow> nat \<Rightarrow> entry \<Rightarrow> DeviceConfig list \<Rightarrow> entry \<times> DeviceConfig list" where
  "write_entry data io k e ds =
     (if is_open (entry_port e) then
        (if r_write_raises io k
         then (e\<lparr>entry_port := (entry_port e)
                   \<lparr>write_calls := write_calls (entry_port e) @ [data]\<rparr>\<rparr>, ds)
         else (e\<lparr>entry_port := (entry_port e)
                   \<lparr>write_calls := write_calls (entry_port e) @ [data],
                    written := written (entry_port e) @ [data]\<rparr>\<rparr>,
               set_last_activity ds (entry_device e) (r_now io)))
      else (e, ds))"

fun fan_out ::
  "bytes \<Rightarrow> importer_io \<Rightarrow> nat \<Rightarrow> entry list \<Rightarrow> DeviceConfig list
     \<Rightarrow> entry list \<times> DeviceConfig list" where
  "fan_out data io k [] ds = ([], ds)"
| "fan_out data io k (e # es) ds =
     (case write_entry data io k e ds of
        (e', ds') \<Rightarrow>
          (case fan_out data io (Suc k) es ds' of (es', ds'') \<Rightarrow> (e' # es', ds'')))"

definition udp_to_serial_iter :: "DCSBIOSManager \<Rightarrow> importer_io \<Rightarrow> DCSBIOSManager" where
  "udp_to_serial_iter m io =
     (case recvfrom (udp_sock m) io of
        Inl e \<Rightarrow> m
      | Inr (data, addr) \<Rightarrow>
          if fst addr \<noteq> dcs_pc_ip m then m
          else if \<not> is_dcsbios_export_packet data then m
          else (case fan_out data io 0 (active_serial_ports m) (devices m) of
                  (es, ds) \<Rightarrow> m\<lparr>active_serial_ports := es, devices := ds\<rparr>))"

text \<open>The clean-up after the loop closes every port that is open.\<close>

definition udp_to_serial_cleanup :: "DCSBIOSManager \<Rightarrow> DCSBIOSManager" where
  "udp_to_serial_cleanup m =
     m\<lparr>active_serial_ports :=
         map (\<lambda>e. e\<lparr>entry_port := (entry_port e)\<lparr>is_open := False\<rparr>\<rparr>)
           (active_serial_ports m)\<rparr>"

fun udp_to_serial_loop :: "DCSBIOSManager \<Rightarrow> importer_io list \<Rightarrow> DCSBIOSManager" where
  "udp_to_serial_loop m [] = (if running m then m else udp_to_serial_cleanup m)"
| "udp_to_serial_loop m (io # ios) =
     (if running m then udp_to_serial_loop (udp_to_serial_iter m io) ios
      else udp_to_serial_cleanup m)"

definition udp_to_serial ::
  "DCSBIOSManager \<Rightarrow> opener_io \<Rightarrow> importer_io list \<Rightarrow> DCSBIOSManager" where
  "udp_to_serial m oio ios = udp_to_serial_loop (udp_to_serial_open m oio) ios"

subsection \<open>Lifecycle\<close>

text \<open>The loop of \<^verbatim>\<open>start\<close> that starts one thread per enabled device.\<close>

fun start_serial_threads :: "nat \<Rightarrow> DeviceConfig list \<Rightarrow> thread list \<Rightarrow> thread list" where
  "start_serial_threads k [] ths = ths"
| "start_serial_threads k (d # ds) ths =
     start_serial_threads (Suc k) ds
       (if truthy (enabled d) then ths @ [SerialToUdp k] else ths)"

text \<open>\<^verbatim>\<open>start()\<close>, given the outcome of \<^verbatim>\<open>setup_udp\<close> and the clock readings
  of its log entries. This is what the call itself assigns: \<^verbatim>\<open>Thread.start()\<close> is
  the recording of a handle. What the started threads do is \<^const>\<open>udp_to_serial\<close>
  and \<^const>\<open>serial_to_udp\<close>; they run beside the rest of the call, so the log and
  the device fields of a real run can hold their writes as well when the call returns.\<close>

definition start ::
  "DCSBIOSManager \<Rightarrow> setup_io \<Rightarrow> string \<Rightarrow> string \<Rightarrow> DCSBIOSManager" where
  "start m sio ts1 ts2 =
     (if running m then add_message m ts1 ''Already running!''
      else
        (let m1 = setup_udp (m\<lparr>running := True\<rparr>) sio ts1;
             m2 = m1\<lparr>threads := threads m1 @ [UdpToSerial]\<rparr>;
             m3 = m2\<lparr>threads := start_serial_threads 0 (devices m2) (threads m2)\<rparr>
         in add_message m3 ts2 ''DCS-BIOS manager daemon started''))"

text \<open>\<^verbatim>\<open>stop()\<close>; the flag says whether \<^verbatim>\<open>udp_sock.close()\<close> raises, which
  is caught.\<close>

definition close_socket :: "bool \<Rightarrow> udp_socket option \<Rightarrow> udp_socket option" where
  "close_socket raises so =
     (case so of
        None \<Rightarrow> None
      | Some s \<Rightarrow> if raises then Some s else Some (s\<lparr>sock_closed := True\<rparr>))"

definition stop :: "DCSBIOSManager \<Rightarrow> string \<Rightarrow> bool \<Rightarrow> string \<Rightarrow> DCSBIOSManager" where
  "stop m ts1 close_raises ts2 =
     (if \<not> running m then m
      else
        (let m1 = add_message (m\<lparr>running := False\<rparr>) ts1
                    ''Stopping DCS-BIOS manager daemon...'';
             m2 = m1\<lparr>udp_sock := close_socket close_raises (udp_sock m1)\<rparr>;
             m3 = m2\<lparr>devices := map (\<lambda>d. d\<lparr>status := ''Stopped''\<rparr>) (devices m2)\<rparr>;
             m4 = m3\<lparr>threads := []\<rparr>
         in add_message m4 ts2 ''DCS-BIOS manager daemon stopped''))"

subsection \<open>Reachable states\<close>

text \<open>The states that the manager's own operations produce from a new manager.
  \<open>configure\<close> stands for the assignments made when the configuration is loaded or
  edited.\<close>

inductive reachable :: "DCSBIOSManager \<Rightarrow> bool" where
  r_init: "reachable DCSBIOSManager_init"
| r_configure: "reachable m \<Longrightarrow>
     reachable (m\<lparr>devices := ds, dcs_pc_ip := ip, udp_port := p, multicast_group := g,
                  auto_start := a, scheduled_reboot_time := r\<rparr>)"
| r_add_message: "reachable m \<Longrightarrow> reachable (add_message m ts msg)"
| r_start: "reachable m \<Longrightarrow> reachable (start m sio ts1 ts2)"
| r_stop: "reachable m \<Longrightarrow> reachable (stop m ts1 cr ts2)"
| r_importer_open: "reachable m \<Longrightarrow> reachable (udp_to_serial_open m oio)"
| r_importer_iter: "reachable m \<Longrightarrow> reachable (udp_to_serial_iter m rio)"
| r_importer_cleanup: "reachable m \<Longrightarrow> reachable (udp_to_serial_cleanup m)"
| r_exporter_enter: "reachable m \<Longrightarrow>
     reachable (m\<lparr>devices := set_status (devices m) i ''Connecting''\<rparr>)"
| r_exporter_iter: "reachable m \<Longrightarrow> reachable (fst (serial_to_udp_iter m i ser xio))"
| r_exporter_exit: "reachable m \<Longrightarrow> reachable (serial_to_udp_exit m i)"

subsection \<open>Example states\<close>

text \<open>Three of the default devices of \<^verbatim>\<open>init_default_devices\<close>, two enabled
  and one disabled, in a new manager.\<close>

definition example_devices :: "DeviceConfig list" where
  "example_devices =
     [DeviceConfig_init (PStr ''AFCS'') (PStr ''/dev/ttyACM0'') (PInt 250000) (PBool True),
      DeviceConfig_init (PStr ''ICS'') (PStr ''/dev/ttyACM1'') (PInt 250000) (PBool True),
      DeviceConfig_init (PStr ''CMS'') (PStr ''/dev/ttyACM8'') (PInt 250000) (PBool False)]"

definition example_manager :: DCSBIOSManager where
  "example_manager = DCSBIOSManager_init\<lparr>devices := example_devices\<rparr>"

text \<open>A running manager with a socket and the ports of the two enabled devices open
  for forwarding.\<close>

definition bridging_manager :: DCSBIOSManager where
  "bridging_manager =
     example_manager\<lparr>running := True,
       udp_sock := Some (socket_new\<lparr>sock_reuse := True,
                     sock_bound := Some (''0.0.0.0'', 5010),
                     sock_groups := [''239.255.50.10'']\<rparr>),
       active_serial_ports :=
         [\<lparr> entry_name = PStr ''AFCS'', entry_port = Serial_new, entry_device = 0 \<rparr>,
          \<lparr> entry_name = PStr ''ICS'', entry_port = Serial_new, entry_device = 1 \<rparr>]\<rparr>"

text \<open>A manager whose log is full.\<close>

definition full_log_manager :: DCSBIOSManager where
  "full_log_manager =
     example_manager\<lparr>status_messages :=
       [''m0'', ''m1'', ''m2'', ''m3'', ''m4'', ''m5'', ''m6'', ''m7'', ''m8'', ''m9'']\<rparr>"

subsection \<open>Invariant\<close>

text \<open>What every reachable state satisfies: the bound and the destination port are the
  constants set by the constructor, and the log is within the bound.\<close>

definition manager_inv :: "DCSBIOSManager \<Rightarrow> bool" where
  "manager_inv m =
     (max_messages m = 10 \<and> udp_dest_port m = 7778 \<and> length (status_messages m) \<le> 10)"

text \<open>The datagram of the specification's scenario, as received from a given host, with
  the writes on the given entries failing.\<close>

definition marked_datagram :: bytes where
  "marked_datagram = [0x55, 0x55, 0x55, 0x55, 0x01, 0x02]"

definition datagram_from :: "bytes \<Rightarrow> string \<Rightarrow> (nat \<Rightarrow> bool) \<Rightarrow> importer_io" where
  "datagram_from data host raises =
     \<lparr> r_recv = Inr (data, (host, 5010)), r_write_raises = raises, r_now = 100 \<rparr>"

text \<open>One pass of an exporter loop in which five bytes are waiting on an open port.\<close>

definition batch_io :: exporter_io where
  "batch_io =
     \<lparr> x_open = None, x_in_waiting = Inr 5, x_read = Inr [13, 10, 65, 13, 66],
       x_sendto = None, x_now = 100, x_ts = ''12:00:05'' \<rparr>"

section \<open>Device descriptors: serialisation\<close>

text \<open>
  C9. Reading back what \<^verbatim>\<open>to_dict\<close> wrote gives a descriptor with the same
  name, port, baudrate and enabled fields; and on any dictionary
  \<^verbatim>\<open>from_dict\<close> fills each missing key with its default:
  name "Unknown", port "", baudrate 250000, enabled True.
\<close>

theorem from_dict_to_dict_roundtrip:
  "name (from_dict (to_dict d)) = name d
   \<and> port (from_dict (to_dict d)) = port d
   \<and> baudrate (from_dict (to_dict d)) = baudrate d
   \<and> enabled (from_dict (to_dict d)) = enabled d
   \<and> name (from_dict data) = (case data ''name'' of None \<Rightarrow> PStr ''Unknown'' | Some v \<Rightarrow> v)
   \<and> port (from_dict data) = (case data ''port'' of None \<Rightarrow> PStr '''' | Some v \<Rightarrow> v)
   \<and> baudrate (from_dict data) = (case data ''baudrate'' of None \<Rightarrow> PInt 250000 | Some v \<Rightarrow> v)
   \<and> enabled (from_dict data) = (case data ''enabled'' of None \<Rightarrow> PBool True | Some v \<Rightarrow> v)"
  by (simp add: from_dict_def to_dict_def dict_get_def DeviceConfig_init_def)

text \<open>
  C10. A freshly constructed descriptor is in the disconnected state whatever the
  constructor arguments are: status is "Stopped" and last-activity is null. The
  dictionary written by \<^verbatim>\<open>to_dict\<close> has exactly the keys name, port,
  baudrate and enabled, each with the descriptor's value of that field, so the runtime
  fields are neither written nor read back: a descriptor restored from it is again
  "Stopped" with no last-activity.
\<close>

theorem DeviceConfig_runtime_fields_fresh:
  "status (DeviceConfig_init n p b e) = ''Stopped''
   \<and> last_activity (DeviceConfig_init n p b e) = None
   \<and> status (DeviceConfig_init2 n p) = ''Stopped''
   \<and> last_activity (DeviceConfig_init2 n p) = None
   \<and> dom (to_dict d) = {''name'', ''port'', ''baudrate'', ''enabled''}
   \<and> to_dict d ''name'' = Some (name d)
   \<and> to_dict d ''port'' = Some (port d)
   \<and> to_dict d ''baudrate'' = Some (baudrate d)
   \<and> to_dict d ''enabled'' = Some (enabled d)
   \<and> to_dict d ''status'' = None
   \<and> to_dict d ''last_activity'' = None
   \<and> to_dict (d\<lparr>status := s, last_activity := a\<rparr>) = to_dict d
   \<and> status (from_dict (to_dict d)) = ''Stopped''
   \<and> last_activity (from_dict (to_dict d)) = None"
  by (auto simp: DeviceConfig_init_def DeviceConfig_init2_def to_dict_def from_dict_def)

section \<open>Auxiliary facts\<close>

subsection \<open>The event log\<close>


lemma add_message_frame [simp]:
  "devices (add_message m ts msg) = devices m"
  "running (add_message m ts msg) = running m"
  "threads (add_message m ts msg) = threads m"
  "active_serial_ports (add_message m ts msg) = active_serial_ports m"
  "udp_sock (add_message m ts msg) = udp_sock m"
  "max_messages (add_message m ts msg) = max_messages m"
  "dcs_pc_ip (add_message m ts msg) = dcs_pc_ip m"
  "udp_ip (add_message m ts msg) = udp_ip m"
  "udp_port (add_message m ts msg) = udp_port m"
  "udp_dest_port (add_message m ts msg) = udp_dest_port m"
  "multicast_group (add_message m ts msg) = multicast_group m"
  "auto_start (add_message m ts msg) = auto_start m"
  "scheduled_reboot_time (add_message m ts msg) = scheduled_reboot_time m"
  by (simp_all add: add_message_def Let_def)

lemma add_message_log:
  "status_messages (add_message m ts msg) =
     (if int (length (status_messages m)) + 1 > max_messages m
      then tl (status_messages m @ [log_entry ts msg])
      else status_messages m @ [log_entry ts msg])"
  by (simp add: add_message_def Let_def)

lemma add_message_last:
  "max_messages m \<ge> 1 \<Longrightarrow> last (status_messages (add_message m ts msg)) = log_entry ts msg"
  apply (simp add: add_message_log)
  apply (cases "status_messages m")
   apply (auto simp: last_tl)
  done

lemma manager_inv_add_message: "manager_inv m \<Longrightarrow> manager_inv (add_message m ts msg)"
  by (simp add: manager_inv_def add_message_log)

lemma manager_inv_cong:
  "max_messages m' = max_messages m \<Longrightarrow> status_messages m' = status_messages m \<Longrightarrow>
   udp_dest_port m' = udp_dest_port m \<Longrightarrow>
   manager_inv m \<Longrightarrow> manager_inv m'"
  by (simp add: manager_inv_def)

lemma manager_inv_setup_udp: "manager_inv m \<Longrightarrow> manager_inv (setup_udp m sio ts)"
  by (cases sio) (auto simp: setup_udp_def intro!: manager_inv_add_message elim: manager_inv_cong[rotated 3])

lemma manager_inv_start: "manager_inv m \<Longrightarrow> manager_inv (start m sio ts1 ts2)"
proof (cases "running m")
  case True
  assume "manager_inv m"
  with True show ?thesis by (simp add: start_def manager_inv_add_message)
next
  case False
  assume ok: "manager_inv m"
  then have "manager_inv (m\<lparr>running := True\<rparr>)" by (simp add: manager_inv_def)
  then have "manager_inv (setup_udp (m\<lparr>running := True\<rparr>) sio ts1)" by (rule manager_inv_setup_udp)
  then have "manager_inv ((setup_udp (m\<lparr>running := True\<rparr>) sio ts1)\<lparr>threads := ths\<rparr>)" for ths
    by (simp add: manager_inv_def)
  with False show ?thesis
    by (simp add: start_def Let_def manager_inv_add_message)
qed

lemma manager_inv_stop: "manager_inv m \<Longrightarrow> manager_inv (stop m ts1 cr ts2)"
proof (cases "running m")
  case False
  assume "manager_inv m"
  with False show ?thesis by (simp add: stop_def)
next
  case True
  assume ok: "manager_inv m"
  then have "manager_inv (m\<lparr>running := False\<rparr>)" by (simp add: manager_inv_def)
  then have "manager_inv (add_message (m\<lparr>running := False\<rparr>) ts1 msg)" for msg
    by (rule manager_inv_add_message)
  then have "manager_inv ((add_message (m\<lparr>running := False\<rparr>) ts1 msg)
               \<lparr>udp_sock := so, devices := ds, threads := ths\<rparr>)" for msg so ds ths
    by (simp add: manager_inv_def)
  with True show ?thesis
    by (simp add: stop_def Let_def manager_inv_add_message)
qed

lemma manager_inv_open_ports: "manager_inv m \<Longrightarrow> manager_inv (open_ports io k ds m)"
proof (induction ds arbitrary: k m)
  case Nil
  then show ?case by simp
next
  case (Cons d ds)
  have "manager_inv (m\<lparr>active_serial_ports := es\<rparr>)" for es
    using Cons.prems by (simp add: manager_inv_def)
  then have "manager_inv (if truthy (enabled d) then
          (case o_open io k of
             None \<Rightarrow>
               add_message
                 (m\<lparr>active_serial_ports := active_serial_ports m @
                       [\<lparr> entry_name = name d, entry_port = Serial_new, entry_device = k \<rparr>]\<rparr>)
                 (o_ts io k) (''Opened '' @ py_str (name d) @ '' for UDP forwarding'')
           | Some e \<Rightarrow>
               add_message m (o_ts io k)
                 (''Could not open '' @ py_str (name d) @ '': '' @ e))
        else m)"
    using Cons.prems by (simp add: manager_inv_add_message split: option.splits)
  then show ?case
    by (simp only: open_ports.simps Cons.IH)
qed

lemma manager_inv_udp_to_serial_open: "manager_inv m \<Longrightarrow> manager_inv (udp_to_serial_open m oio)"
  unfolding udp_to_serial_open_def
  by (rule manager_inv_open_ports) (simp add: manager_inv_def)

lemma manager_inv_udp_to_serial_iter: "manager_inv m \<Longrightarrow> manager_inv (udp_to_serial_iter m rio)"
  by (auto simp: udp_to_serial_iter_def manager_inv_def split: sum.splits prod.splits)

lemma manager_inv_udp_to_serial_cleanup: "manager_inv m \<Longrightarrow> manager_inv (udp_to_serial_cleanup m)"
  by (simp add: udp_to_serial_cleanup_def manager_inv_def)

lemma manager_inv_handle_exc: "manager_inv m \<Longrightarrow> manager_inv (fst (handle_exc m i ser e))"
  by (cases e) (simp_all add: handle_exc_def manager_inv_def)

lemma manager_inv_try_connect: "manager_inv m \<Longrightarrow> manager_inv (fst (fst (try_connect m i ser xio)))"
  apply (simp add: try_connect_def split: option.splits)
  apply (intro conjI impI allI manager_inv_add_message)
  apply (simp add: manager_inv_def)
  done

lemma manager_inv_try_relay: "manager_inv m \<Longrightarrow> manager_inv (fst (try_relay m i xio))"
  by (auto simp: try_relay_def manager_inv_def split: sum.splits)

lemma manager_inv_serial_to_udp_iter: "manager_inv m \<Longrightarrow> manager_inv (fst (serial_to_udp_iter m i ser xio))"
  unfolding serial_to_udp_iter_def
  apply (cases "try_connect m i ser xio")
  subgoal for p r
    apply (cases p)
    subgoal for m1 ser1
      using manager_inv_try_connect[of m i ser xio]
      apply (cases r)
       apply (cases "try_relay m1 i xio")
      subgoal for m2 r2
        using manager_inv_try_relay[of m1 i xio]
        by (cases r2) (auto intro: manager_inv_handle_exc)
      by (auto intro: manager_inv_handle_exc)
    done
  done

lemma reachable_manager_inv: "reachable m \<Longrightarrow> manager_inv m"
proof (induction rule: reachable.induct)
  case r_init
  then show ?case by (simp add: manager_inv_def DCSBIOSManager_init_def)
next
  case (r_configure m ds ip p g a r)
  then show ?case by (simp add: manager_inv_def)
next
  case (r_exporter_enter m i)
  then show ?case by (simp add: manager_inv_def)
next
  case (r_exporter_exit m i)
  then show ?case by (simp add: manager_inv_def serial_to_udp_exit_def)
qed (auto intro: manager_inv_add_message manager_inv_start manager_inv_stop manager_inv_udp_to_serial_open
      manager_inv_udp_to_serial_iter manager_inv_udp_to_serial_cleanup manager_inv_serial_to_udp_iter)

section \<open>The event log is bounded\<close>



subsection \<open>Start and stop\<close>


lemma setup_udp_frame [simp]:
  "devices (setup_udp m sio ts) = devices m"
  "running (setup_udp m sio ts) = running m"
  "threads (setup_udp m sio ts) = threads m"
  "active_serial_ports (setup_udp m sio ts) = active_serial_ports m"
  "max_messages (setup_udp m sio ts) = max_messages m"
  "dcs_pc_ip (setup_udp m sio ts) = dcs_pc_ip m"
  "udp_ip (setup_udp m sio ts) = udp_ip m"
  "udp_port (setup_udp m sio ts) = udp_port m"
  "udp_dest_port (setup_udp m sio ts) = udp_dest_port m"
  "multicast_group (setup_udp m sio ts) = multicast_group m"
  "auto_start (setup_udp m sio ts) = auto_start m"
  "scheduled_reboot_time (setup_udp m sio ts) = scheduled_reboot_time m"
  by (cases sio; simp add: setup_udp_def)+

lemma setup_udp_failure_log:
  "sio \<in> {SocketRaises e, ReuseAddrRaises e, BindRaises e, JoinRaises e} \<Longrightarrow>
   status_messages (setup_udp m sio ts) = status_messages (add_message m ts (setup_error e))"
  by (auto simp: setup_udp_def add_message_log)

lemma start_serial_threads_eq:
  "start_serial_threads k ds ths =
     ths @ map (\<lambda>j. SerialToUdp (k + j))
             (filter (\<lambda>j. truthy (enabled (ds ! j))) [0..<length ds])"
proof (induction ds arbitrary: k ths)
  case Nil
  then show ?case by simp
next
  case (Cons d ds)
  have upt: "[0..<length (d # ds)] = 0 # map Suc [0..<length ds]"
    by (simp add: upt_conv_Cons map_Suc_upt del: upt_Suc)
  show ?case
    by (simp only: start_serial_threads.simps Cons.IH upt)
       (simp add: filter_map comp_def)
qed

lemma add_message_twice:
  "max_messages m \<ge> 2 \<Longrightarrow>
   \<exists>pre. status_messages (add_message (add_message m t1 a) t2 b)
           = pre @ [log_entry t1 a, log_entry t2 b]"
  by (cases "status_messages m"; cases "tl (status_messages m)")
     (auto simp: add_message_log)

lemma start_when_stopped:
  "\<not> running m \<Longrightarrow>
   running (start m sio ts1 ts2)
   \<and> devices (start m sio ts1 ts2) = devices m
   \<and> threads (start m sio ts1 ts2) =
       threads m @ UdpToSerial #
         map SerialToUdp (filter (\<lambda>j. truthy (enabled (devices m ! j))) [0..<length (devices m)])
   \<and> status_messages (start m sio ts1 ts2) =
       status_messages (add_message (setup_udp (m\<lparr>running := True\<rparr>) sio ts1) ts2
          ''DCS-BIOS manager daemon started'')"
  by (simp add: start_def Let_def start_serial_threads_eq add_message_log)

lemma running_start: "running (start m sio ts1 ts2)"
  by (simp add: start_def Let_def)

section \<open>Lifecycle of the bridge\<close>

text \<open>
  A failing bind does not stop \<^verbatim>\<open>start()\<close>: with the bind raising "Address
  already in use", a stopped manager with two enabled devices and a disabled one ends
  up running, with the importer thread and the exporter threads of the two enabled
  devices started.
\<close>

theorem start_bind_failure_counterexample:
  "\<not> running example_manager
   \<and> running (start example_manager (BindRaises ''Address already in use'')
                ''12:00:00'' ''12:00:01'')
   \<and> threads (start example_manager (BindRaises ''Address already in use'')
                ''12:00:00'' ''12:00:01'') = [UdpToSerial, SerialToUdp 0, SerialToUdp 1]"
  by (simp add: start_def setup_udp_def add_message_def Let_def example_manager_def
        example_devices_def DeviceConfig_init_def DCSBIOSManager_init_def)

text \<open>
  C2, as the code has it. If creating, binding or joining the network endpoint fails
  during \<^verbatim>\<open>start()\<close> called on a stopped manager, \<^verbatim>\<open>setup_udp\<close> logs the
  error as "UDP setup error: ...", which is the last entry of the log when it returns, and
  \<^verbatim>\<open>start()\<close> goes on as it does after a successful setup: the running flag is
  set, and the importer thread and one exporter thread per enabled device are started.
  No outcome of the endpoint setup keeps the bridge from entering the running state.
\<close>

theorem start_proceeds_after_setup_failure:
  assumes "\<not> running m"
    and "sio \<in> {SocketRaises e, ReuseAddrRaises e, BindRaises e, JoinRaises e}"
    and "max_messages m = 10"
  shows "running (start m sio ts1 ts2)
         \<and> threads (start m sio ts1 ts2) =
             threads m @ UdpToSerial #
               map SerialToUdp
                 (filter (\<lambda>j. truthy (enabled (devices m ! j))) [0..<length (devices m)])
         \<and> status_messages (setup_udp (m\<lparr>running := True\<rparr>) sio ts1) =
             status_messages (add_message m ts1 (''UDP setup error: '' @ e))
         \<and> last (status_messages (setup_udp (m\<lparr>running := True\<rparr>) sio ts1)) =
             log_entry ts1 (''UDP setup error: '' @ e)
         \<and> (\<forall>sio'. running (start m sio' ts1 ts2))"
proof -
  have 1: "running (start m sio' ts1 ts2)" for sio'
    by (rule running_start)
  have 2: "threads (start m sio ts1 ts2) =
             threads m @ UdpToSerial #
               map SerialToUdp
                 (filter (\<lambda>j. truthy (enabled (devices m ! j))) [0..<length (devices m)])"
    using assms(1) by (rule start_when_stopped [THEN conjunct2, THEN conjunct2, THEN conjunct1])
  have 3: "status_messages (setup_udp (m\<lparr>running := True\<rparr>) sio ts1) =
             status_messages (add_message m ts1 (''UDP setup error: '' @ e))"
    using setup_udp_failure_log [OF assms(2), of "m\<lparr>running := True\<rparr>" ts1]
    by (simp add: add_message_log setup_error_def)
  have "last (status_messages (add_message m ts1 (''UDP setup error: '' @ e))) =
             log_entry ts1 (''UDP setup error: '' @ e)"
    by (rule add_message_last) (simp add: assms(3))
  then have 4: "last (status_messages (setup_udp (m\<lparr>running := True\<rparr>) sio ts1)) =
             log_entry ts1 (''UDP setup error: '' @ e)"
    by (simp only: 3)
  from 1 have 5: "\<forall>sio'. running (start m sio' ts1 ts2)" ..
  from 1 [of sio] 2 3 4 5 show ?thesis by (intro conjI)
qed

theorem start_proceeds_after_setup_failure_witness:
  "running (start example_manager (JoinRaises ''No such device'') ''12:00:00'' ''12:00:01'')
   \<and> threads (start example_manager (JoinRaises ''No such device'') ''12:00:00'' ''12:00:01'')
       = [UdpToSerial, SerialToUdp 0, SerialToUdp 1]
   \<and> status_messages (setup_udp (example_manager\<lparr>running := True\<rparr>)
         (JoinRaises ''No such device'') ''12:00:00'')
       = [''[12:00:00] UDP setup error: No such device'']"
proof -
  let ?s = "start example_manager (JoinRaises ''No such device'') ''12:00:00'' ''12:00:01''"
  have h1: "\<not> running example_manager"
    by (simp add: example_manager_def DCSBIOSManager_init_def)
  have h2: "JoinRaises ''No such device'' \<in> {SocketRaises ''No such device'',
      ReuseAddrRaises ''No such device'', BindRaises ''No such device'', JoinRaises ''No such device''}"
    by simp
  have h3: "max_messages example_manager = 10"
    by (simp add: example_manager_def DCSBIOSManager_init_def)
  have th: "threads example_manager = []"
    by (simp add: example_manager_def DCSBIOSManager_init_def)
  have dv: "devices example_manager = example_devices"
    by (simp add: example_manager_def)
  have up: "[0..<length (devices example_manager)] = [0, 1, 2]"
    by (simp add: dv example_devices_def upt_rec)
  have lg: "status_messages (add_message example_manager ''12:00:00''
        (''UDP setup error: '' @ ''No such device''))
      = [''[12:00:00] UDP setup error: No such device'']"
    by (simp add: add_message_log log_entry_def example_manager_def DCSBIOSManager_init_def)
  note t = start_proceeds_after_setup_failure [OF h1 h2 h3, of "''12:00:00''" "''12:00:01''"]
  from t have a: "running ?s" by (rule conjunct1)
  from t have "threads ?s = threads example_manager @ UdpToSerial #
      map SerialToUdp (filter (\<lambda>j. truthy (enabled (devices example_manager ! j)))
        [0..<length (devices example_manager)])"
    by (rule conjunct2 [THEN conjunct1])
  then have b: "threads ?s = [UdpToSerial, SerialToUdp 0, SerialToUdp 1]"
    by (simp add: th up) (simp add: dv example_devices_def DeviceConfig_init_def)
  from t have "status_messages (setup_udp (example_manager\<lparr>running := True\<rparr>)
         (JoinRaises ''No such device'') ''12:00:00'')
       = status_messages (add_message example_manager ''12:00:00''
        (''UDP setup error: '' @ ''No such device''))"
    by (rule conjunct2 [THEN conjunct2, THEN conjunct1])
  then have c: "status_messages (setup_udp (example_manager\<lparr>running := True\<rparr>)
         (JoinRaises ''No such device'') ''12:00:00'')
       = [''[12:00:00] UDP setup error: No such device'']"
    by (simp only: lg)
  from a b c show ?thesis by (intro conjI)
qed

text \<open>
  C5. \<^verbatim>\<open>stop()\<close> on a running manager clears the running flag, sets the status of
  every device in the list, enabled or not, to "Stopped" (the disconnected state),
  empties the list of thread handles, and logs the stop event as the last entry.
  \<^verbatim>\<open>stop()\<close> on a stopped manager returns the state as it is.
\<close>

theorem stop_effects:
  "(running m \<longrightarrow>
      \<not> running (stop m ts1 cr ts2)
      \<and> devices (stop m ts1 cr ts2) = map (\<lambda>d. d\<lparr>status := ''Stopped''\<rparr>) (devices m)
      \<and> (\<forall>d \<in> set (devices (stop m ts1 cr ts2)). status d = ''Stopped'')
      \<and> threads (stop m ts1 cr ts2) = []
      \<and> status_messages (stop m ts1 cr ts2) =
          status_messages
            (add_message (add_message m ts1 ''Stopping DCS-BIOS manager daemon...'') ts2
               ''DCS-BIOS manager daemon stopped'')
      \<and> (max_messages m \<ge> 1 \<longrightarrow>
           last (status_messages (stop m ts1 cr ts2)) =
             log_entry ts2 ''DCS-BIOS manager daemon stopped''))
   \<and> (\<not> running m \<longrightarrow> stop m ts1 cr ts2 = m)"
proof -
  have stopped: "\<not> running m \<Longrightarrow> stop m ts1 cr ts2 = m"
    by (simp add: stop_def)
  {
    assume r: "running m"
    let ?m1 = "add_message (m\<lparr>running := False\<rparr>) ts1 ''Stopping DCS-BIOS manager daemon...''"
    let ?m4 = "?m1\<lparr>udp_sock := close_socket cr (udp_sock ?m1),
                   devices := map (\<lambda>d. d\<lparr>status := ''Stopped''\<rparr>) (devices ?m1),
                   threads := []\<rparr>"
    have eq: "stop m ts1 cr ts2 = add_message ?m4 ts2 ''DCS-BIOS manager daemon stopped''"
      using r by (simp add: stop_def Let_def)
    have a: "\<not> running (stop m ts1 cr ts2)" by (simp add: eq)
    have b: "devices (stop m ts1 cr ts2) = map (\<lambda>d. d\<lparr>status := ''Stopped''\<rparr>) (devices m)"
      by (simp add: eq)
    have c: "\<forall>d \<in> set (devices (stop m ts1 cr ts2)). status d = ''Stopped''"
      by (auto simp: b)
    have d: "threads (stop m ts1 cr ts2) = []" by (simp add: eq)
    have e: "status_messages (stop m ts1 cr ts2) =
          status_messages
            (add_message (add_message m ts1 ''Stopping DCS-BIOS manager daemon...'') ts2
               ''DCS-BIOS manager daemon stopped'')"
      by (simp add: eq add_message_log)
    have f: "max_messages m \<ge> 1 \<Longrightarrow> last (status_messages (stop m ts1 cr ts2)) =
             log_entry ts2 ''DCS-BIOS manager daemon stopped''"
      unfolding eq by (rule add_message_last) simp
    note a b c d e f
  }
  with stopped show ?thesis by blast
qed

theorem stop_effects_witness:
  "stop example_manager ''12:00:02'' False ''12:00:03'' = example_manager
   \<and> \<not> running (stop (start example_manager SetupReturns ''12:00:00'' ''12:00:01'')
                  ''12:00:02'' False ''12:00:03'')
   \<and> threads (stop (start example_manager SetupReturns ''12:00:00'' ''12:00:01'')
                  ''12:00:02'' False ''12:00:03'') = []
   \<and> map status (devices (stop (start example_manager SetupReturns ''12:00:00'' ''12:00:01'')
                  ''12:00:02'' False ''12:00:03'')) = [''Stopped'', ''Stopped'', ''Stopped'']
   \<and> last (status_messages (stop (start example_manager SetupReturns ''12:00:00'' ''12:00:01'')
                  ''12:00:02'' False ''12:00:03''))
       = ''[12:00:03] DCS-BIOS manager daemon stopped''"
proof -
  have h1: "\<not> running example_manager"
    by (simp add: example_manager_def DCSBIOSManager_init_def)
  have h2: "running (start example_manager SetupReturns ''12:00:00'' ''12:00:01'')"
    by (rule running_start)
  have h3: "max_messages (start example_manager SetupReturns ''12:00:00'' ''12:00:01'') \<ge> 1"
    by (simp add: start_def Let_def example_manager_def DCSBIOSManager_init_def)
  have h4: "devices (start example_manager SetupReturns ''12:00:00'' ''12:00:01'') = example_devices"
    by (simp add: start_def Let_def example_manager_def DCSBIOSManager_init_def)
  let ?s = "start example_manager SetupReturns ''12:00:00'' ''12:00:01''"
  from stop_effects [of example_manager "''12:00:02''" False "''12:00:03''"] h1
  have a: "stop example_manager ''12:00:02'' False ''12:00:03'' = example_manager"
    by blast
  from stop_effects [of ?s "''12:00:02''" False "''12:00:03''"] h2 h3
  have b: "\<not> running (stop ?s ''12:00:02'' False ''12:00:03'')
      \<and> devices (stop ?s ''12:00:02'' False ''12:00:03'')
          = map (\<lambda>d. d\<lparr>status := ''Stopped''\<rparr>) (devices ?s)
      \<and> threads (stop ?s ''12:00:02'' False ''12:00:03'') = []
      \<and> last (status_messages (stop ?s ''12:00:02'' False ''12:00:03''))
          = log_entry ''12:00:03'' ''DCS-BIOS manager daemon stopped''"
    by blast
  from a b show ?thesis
    by (simp add: h4 example_devices_def DeviceConfig_init_def log_entry_def)
qed

text \<open>
  C7. \<^verbatim>\<open>start()\<close> on a running manager appends the log entry
  "Already running!" and returns: the state differs from the one before in the event
  log only, so the running flag, the devices, the thread handles, the open ports and the
  socket are the same. As \<^verbatim>\<open>start()\<close> always leaves the manager running, a
  second \<^verbatim>\<open>start()\<close> after a first one does nothing but add that entry.
\<close>

theorem start_when_running_only_logs:
  assumes "running m"
  shows "start m sio ts1 ts2 =
           m\<lparr>status_messages := status_messages (add_message m ts1 ''Already running!'')\<rparr>
         \<and> status_messages (start m sio ts1 ts2) =
             (if int (length (status_messages m)) + 1 > max_messages m
              then tl (status_messages m @ [''['' @ ts1 @ ''] Already running!''])
              else status_messages m @ [''['' @ ts1 @ ''] Already running!''])
         \<and> running (start m sio ts1 ts2) = running m
         \<and> devices (start m sio ts1 ts2) = devices m
         \<and> threads (start m sio ts1 ts2) = threads m
         \<and> active_serial_ports (start m sio ts1 ts2) = active_serial_ports m
         \<and> udp_sock (start m sio ts1 ts2) = udp_sock m
         \<and> start (start m0 sio0 ts3 ts4) sio ts1 ts2 =
             (start m0 sio0 ts3 ts4)\<lparr>status_messages :=
                status_messages (add_message (start m0 sio0 ts3 ts4) ts1 ''Already running!'')\<rparr>"
proof -
  have eq: "running x \<Longrightarrow> start x sio ts1 ts2 = add_message x ts1 ''Already running!''" for x
    by (simp add: start_def)
  have rec: "add_message x ts1 ''Already running!'' =
      x\<lparr>status_messages := status_messages (add_message x ts1 ''Already running!'')\<rparr>" for x
    by (simp add: add_message_def Let_def)
  have 1: "start m sio ts1 ts2 =
           m\<lparr>status_messages := status_messages (add_message m ts1 ''Already running!'')\<rparr>"
    using eq [OF assms] rec [of m] by simp
  have 2: "status_messages (start m sio ts1 ts2) =
             (if int (length (status_messages m)) + 1 > max_messages m
              then tl (status_messages m @ [''['' @ ts1 @ ''] Already running!''])
              else status_messages m @ [''['' @ ts1 @ ''] Already running!''])"
    unfolding eq [OF assms] by (simp add: add_message_log log_entry_def)
  have 3: "running (start m sio ts1 ts2) = running m"
    "devices (start m sio ts1 ts2) = devices m"
    "threads (start m sio ts1 ts2) = threads m"
    "active_serial_ports (start m sio ts1 ts2) = active_serial_ports m"
    "udp_sock (start m sio ts1 ts2) = udp_sock m"
    unfolding eq [OF assms] by simp_all
  have 4: "start (start m0 sio0 ts3 ts4) sio ts1 ts2 =
             (start m0 sio0 ts3 ts4)\<lparr>status_messages :=
                status_messages (add_message (start m0 sio0 ts3 ts4) ts1 ''Already running!'')\<rparr>"
    using eq [OF running_start, of m0 sio0 ts3 ts4] rec [of "start m0 sio0 ts3 ts4"] by simp
  from 1 2 3 4 show ?thesis by blast
qed

theorem start_when_running_only_logs_witness:
  "start (start example_manager SetupReturns ''12:00:00'' ''12:00:01'') SetupReturns
      ''12:00:02'' ''12:00:03''
   = (start example_manager SetupReturns ''12:00:00'' ''12:00:01'')
       \<lparr>status_messages :=
          [''[12:00:00] UDP socket listening on port 5010'',
           ''[12:00:01] DCS-BIOS manager daemon started'',
           ''[12:00:02] Already running!'']\<rparr>"
proof -
  have h: "running (start example_manager SetupReturns ''12:00:00'' ''12:00:01'')"
    by (rule running_start)
  have p: "str_int 5010 = ''5010''"
    by (simp add: str_int_def str_nat.simps digit_char_def)
  have l: "status_messages (start example_manager SetupReturns ''12:00:00'' ''12:00:01'') =
     [''[12:00:00] UDP socket listening on port 5010'',
      ''[12:00:01] DCS-BIOS manager daemon started'']"
    by (simp add: start_def setup_udp_def add_message_def Let_def example_manager_def
          DCSBIOSManager_init_def log_entry_def p)
  have mx: "max_messages (start example_manager SetupReturns ''12:00:00'' ''12:00:01'') = 10"
    by (simp add: start_def Let_def example_manager_def DCSBIOSManager_init_def)
  let ?s = "start example_manager SetupReturns ''12:00:00'' ''12:00:01''"
  from start_when_running_only_logs [OF h, of SetupReturns "''12:00:02''" "''12:00:03''"]
  have e: "start ?s SetupReturns ''12:00:02'' ''12:00:03'' =
      ?s\<lparr>status_messages := status_messages (add_message ?s ''12:00:02'' ''Already running!'')\<rparr>"
    by (rule conjunct1)
  have a: "status_messages (add_message ?s ''12:00:02'' ''Already running!'') =
      [''[12:00:00] UDP socket listening on port 5010'',
       ''[12:00:01] DCS-BIOS manager daemon started'',
       ''[12:00:02] Already running!'']"
    by (simp add: add_message_log l mx log_entry_def)
  show ?thesis
    by (simp only: e a)
qed

subsection \<open>The importer\<close>


lemma is_dcsbios_export_packet_iff:
  "is_dcsbios_export_packet data =
     (4 \<le> length data \<and> take 4 data = [0x55, 0x55, 0x55, 0x55])"
proof (cases "4 \<le> length data")
  case False
  then show ?thesis by (simp add: is_dcsbios_export_packet_def)
next
  case True
  then obtain a b c d rest where "data = a # b # c # d # rest"
    by (cases data; simp; rename_tac x xs; case_tac xs; simp;
        rename_tac y ys; case_tac ys; simp; rename_tac z zs; case_tac zs; simp)
  then show ?thesis by (simp add: is_dcsbios_export_packet_def)
qed

lemma write_entry_fst:
  "fst (write_entry data io k e ds) =
     (if is_open (entry_port e)
      then e\<lparr>entry_port := (entry_port e)
               \<lparr>write_calls := write_calls (entry_port e) @ [data],
                written := written (entry_port e) @ (if r_write_raises io k then [] else [data])\<rparr>\<rparr>
      else e)"
  by (simp add: write_entry_def)

lemma write_entry_snd:
  "snd (write_entry data io k e ds) =
     (if is_open (entry_port e) \<and> \<not> r_write_raises io k
      then set_last_activity ds (entry_device e) (r_now io) else ds)"
  by (simp add: write_entry_def)

lemma fan_out_length [simp]:
  "length (fst (fan_out data io k es ds)) = length es"
proof (induction es arbitrary: k ds)
  case Nil
  then show ?case by simp
next
  case (Cons e es)
  obtain e' ds' where w: "write_entry data io k e ds = (e', ds')" by (cases "write_entry data io k e ds")
  obtain es' ds'' where f: "fan_out data io (Suc k) es ds' = (es', ds'')"
    by (cases "fan_out data io (Suc k) es ds'")
  from Cons.IH [of "Suc k" ds'] f w show ?case by simp
qed

lemma fan_out_nth:
  "j < length es \<Longrightarrow>
   fst (fan_out data io k es ds) ! j = fst (write_entry data io (k + j) (es ! j) [])"
proof (induction es arbitrary: k ds j)
  case Nil
  then show ?case by simp
next
  case (Cons e es)
  obtain e' ds' where w: "write_entry data io k e ds = (e', ds')" by (cases "write_entry data io k e ds")
  obtain es' ds'' where f: "fan_out data io (Suc k) es ds' = (es', ds'')"
    by (cases "fan_out data io (Suc k) es ds'")
  have e': "e' = fst (write_entry data io k e [])"
    using w write_entry_fst [of data io k e ds] by (simp add: write_entry_fst)
  show ?case
  proof (cases j)
    case 0
    with w f e' show ?thesis by simp
  next
    case (Suc j')
    with Cons.prems have "j' < length es" by simp
    from Cons.IH [OF this, of "Suc k" ds'] f Suc w show ?thesis by simp
  qed
qed

lemma set_last_activity_map:
  assumes "\<And>d x. f (d\<lparr>last_activity := x\<rparr>) = f d"
  shows "map f (set_last_activity ds i t) = map f ds"
proof (cases "i < length ds")
  case True
  then show ?thesis
    by (simp add: set_last_activity_def map_update assms list_update_same_conv)
next
  case False
  then have "ds[i := (ds ! i)\<lparr>last_activity := Some t\<rparr>] = ds"
    by (intro list_update_beyond) simp
  then show ?thesis by (simp add: set_last_activity_def)
qed

lemma write_entry_map:
  assumes "\<And>d x. f (d\<lparr>last_activity := x\<rparr>) = f d"
  shows "map f (snd (write_entry data io k e ds)) = map f ds"
  by (simp add: write_entry_snd set_last_activity_map [of f, OF assms])

lemma fan_out_map:
  assumes "\<And>d x. f (d\<lparr>last_activity := x\<rparr>) = f d"
  shows "map f (snd (fan_out data io k es ds)) = map f ds"
proof (induction es arbitrary: k ds)
  case Nil
  then show ?case by simp
next
  case (Cons e es)
  obtain e' ds' where w: "write_entry data io k e ds = (e', ds')" by (cases "write_entry data io k e ds")
  obtain es' ds'' where f: "fan_out data io (Suc k) es ds' = (es', ds'')"
    by (cases "fan_out data io (Suc k) es ds'")
  from write_entry_map [of f data io k e ds, OF assms] w have 1: "map f ds' = map f ds" by simp
  from Cons.IH [of "Suc k" ds'] f have 2: "map f ds'' = map f ds'" by simp
  from w f 1 2 show ?case by simp
qed

lemma udp_to_serial_iter_cases:
  "udp_to_serial_iter m io =
     (case recvfrom (udp_sock m) io of
        Inl e \<Rightarrow> m
      | Inr (data, addr) \<Rightarrow>
          if fst addr = dcs_pc_ip m \<and> is_dcsbios_export_packet data
          then m\<lparr>active_serial_ports := fst (fan_out data io 0 (active_serial_ports m) (devices m)),
                 devices := snd (fan_out data io 0 (active_serial_ports m) (devices m))\<rparr>
          else m)"
  by (simp add: udp_to_serial_iter_def split: sum.splits prod.splits)

lemma udp_to_serial_iter_frame [simp]:
  "running (udp_to_serial_iter m io) = running m"
  "threads (udp_to_serial_iter m io) = threads m"
  "udp_sock (udp_to_serial_iter m io) = udp_sock m"
  "status_messages (udp_to_serial_iter m io) = status_messages m"
  "length (active_serial_ports (udp_to_serial_iter m io)) = length (active_serial_ports m)"
  by (simp_all add: udp_to_serial_iter_cases split: sum.splits prod.splits)

lemma udp_to_serial_iter_map:
  assumes "\<And>d x. f (d\<lparr>last_activity := x\<rparr>) = f d"
  shows "map f (devices (udp_to_serial_iter m io)) = map f (devices m)"
  by (simp add: udp_to_serial_iter_cases fan_out_map [of f, OF assms] split: sum.splits prod.splits)

section \<open>Network importer\<close>

text \<open>
  C1. \<^verbatim>\<open>is_dcsbios_export_packet(data)\<close> is true exactly when the datagram has
  at least 4 bytes and its first 4 bytes are 0x55. A received datagram is written to the
  device transports if and only if its sender is the configured simulator host and it
  passes that test: on acceptance every open port of the fan-out set gets one write call
  with the datagram, and gets the datagram when the write does not fail; a datagram
  that fails a check leaves the whole state, the event log included, as it was.
\<close>

theorem importer_filter:
  assumes "recvfrom (udp_sock m) io = Inr (data, addr)"
  shows "is_dcsbios_export_packet data =
           (4 \<le> length data \<and> take 4 data = [0x55, 0x55, 0x55, 0x55])
         \<and> (\<not> (fst addr = dcs_pc_ip m \<and> 4 \<le> length data
                \<and> take 4 data = [0x55, 0x55, 0x55, 0x55])
              \<longrightarrow> udp_to_serial_iter m io = m)
         \<and> (\<forall>k < length (active_serial_ports m).
               write_calls (entry_port (active_serial_ports (udp_to_serial_iter m io) ! k)) =
                 write_calls (entry_port (active_serial_ports m ! k)) @
                   (if fst addr = dcs_pc_ip m \<and> 4 \<le> length data
                       \<and> take 4 data = [0x55, 0x55, 0x55, 0x55]
                       \<and> is_open (entry_port (active_serial_ports m ! k))
                    then [data] else [])
               \<and> written (entry_port (active_serial_ports (udp_to_serial_iter m io) ! k)) =
                 written (entry_port (active_serial_ports m ! k)) @
                   (if fst addr = dcs_pc_ip m \<and> 4 \<le> length data
                       \<and> take 4 data = [0x55, 0x55, 0x55, 0x55]
                       \<and> is_open (entry_port (active_serial_ports m ! k))
                       \<and> \<not> r_write_raises io k
                    then [data] else []))"
proof -
  define acc where
    "acc \<longleftrightarrow> fst addr = dcs_pc_ip m \<and> 4 \<le> length data
                \<and> take 4 data = [0x55, 0x55, 0x55, 0x55]"
  have p: "is_dcsbios_export_packet data =
           (4 \<le> length data \<and> take 4 data = [0x55, 0x55, 0x55, 0x55])"
    by (rule is_dcsbios_export_packet_iff)
  have acc_eq: "acc \<longleftrightarrow> fst addr = dcs_pc_ip m \<and> is_dcsbios_export_packet data"
    unfolding acc_def p ..
  have it: "udp_to_serial_iter m io =
      (if acc
       then m\<lparr>active_serial_ports := fst (fan_out data io 0 (active_serial_ports m) (devices m)),
              devices := snd (fan_out data io 0 (active_serial_ports m) (devices m))\<rparr>
       else m)"
    unfolding acc_eq by (simp add: udp_to_serial_iter_cases assms)
  have rej: "\<not> acc \<longrightarrow> udp_to_serial_iter m io = m"
    by (simp add: it)
  have each: "write_calls (entry_port (active_serial_ports (udp_to_serial_iter m io) ! k)) =
                 write_calls (entry_port (active_serial_ports m ! k)) @
                   (if acc \<and> is_open (entry_port (active_serial_ports m ! k))
                    then [data] else [])
               \<and> written (entry_port (active_serial_ports (udp_to_serial_iter m io) ! k)) =
                 written (entry_port (active_serial_ports m ! k)) @
                   (if acc \<and> is_open (entry_port (active_serial_ports m ! k))
                       \<and> \<not> r_write_raises io k
                    then [data] else [])"
    if "k < length (active_serial_ports m)" for k
  proof (cases acc)
    case False
    then show ?thesis by (simp add: it)
  next
    case True
    then have n: "active_serial_ports (udp_to_serial_iter m io) ! k =
        fst (write_entry data io k (active_serial_ports m ! k) [])"
      using fan_out_nth [OF that, of data io 0 "devices m"] by (simp add: it)
    from True show ?thesis
      unfolding n by (simp add: write_entry_fst)
  qed
  have all: "\<forall>k < length (active_serial_ports m).
      write_calls (entry_port (active_serial_ports (udp_to_serial_iter m io) ! k)) =
                 write_calls (entry_port (active_serial_ports m ! k)) @
                   (if acc \<and> is_open (entry_port (active_serial_ports m ! k))
                    then [data] else [])
               \<and> written (entry_port (active_serial_ports (udp_to_serial_iter m io) ! k)) =
                 written (entry_port (active_serial_ports m ! k)) @
                   (if acc \<and> is_open (entry_port (active_serial_ports m ! k))
                       \<and> \<not> r_write_raises io k
                    then [data] else [])"
    using each by (intro allI impI)
  from p rej all have "is_dcsbios_export_packet data =
           (4 \<le> length data \<and> take 4 data = [0x55, 0x55, 0x55, 0x55])
     \<and> (\<not> acc \<longrightarrow> udp_to_serial_iter m io = m)
     \<and> (\<forall>k < length (active_serial_ports m).
      write_calls (entry_port (active_serial_ports (udp_to_serial_iter m io) ! k)) =
                 write_calls (entry_port (active_serial_ports m ! k)) @
                   (if acc \<and> is_open (entry_port (active_serial_ports m ! k))
                    then [data] else [])
               \<and> written (entry_port (active_serial_ports (udp_to_serial_iter m io) ! k)) =
                 written (entry_port (active_serial_ports m ! k)) @
                   (if acc \<and> is_open (entry_port (active_serial_ports m ! k))
                       \<and> \<not> r_write_raises io k
                    then [data] else []))"
    by (intro conjI)
  then show ?thesis
    unfolding acc_def conj_assoc .
qed

theorem importer_filter_witness:
  "written (entry_port (active_serial_ports
      (udp_to_serial_iter bridging_manager
         (datagram_from marked_datagram ''192.168.1.2'' (\<lambda>k. False))) ! 0)) = [marked_datagram]
   \<and> written (entry_port (active_serial_ports
      (udp_to_serial_iter bridging_manager
         (datagram_from marked_datagram ''192.168.1.2'' (\<lambda>k. False))) ! 1)) = [marked_datagram]
   \<and> udp_to_serial_iter bridging_manager
        (datagram_from marked_datagram ''192.168.1.77'' (\<lambda>k. False)) = bridging_manager
   \<and> udp_to_serial_iter bridging_manager
        (datagram_from [0x55, 0x55, 0x55] ''192.168.1.2'' (\<lambda>k. False)) = bridging_manager
   \<and> udp_to_serial_iter bridging_manager
        (datagram_from [0x55, 0x55, 0x54, 0x55, 0x01] ''192.168.1.2'' (\<lambda>k. False))
       = bridging_manager"
proof -
  have rx: "recvfrom (udp_sock bridging_manager) (datagram_from d h (\<lambda>k. False))
              = Inr (d, (h, 5010))" for d h
    by (simp add: recvfrom_def bridging_manager_def datagram_from_def socket_new_def)
  have ip: "dcs_pc_ip bridging_manager = ''192.168.1.2''"
    by (simp add: bridging_manager_def example_manager_def DCSBIOSManager_init_def)
  have ports: "active_serial_ports bridging_manager =
         [\<lparr> entry_name = PStr ''AFCS'', entry_port = Serial_new, entry_device = 0 \<rparr>,
          \<lparr> entry_name = PStr ''ICS'', entry_port = Serial_new, entry_device = 1 \<rparr>]"
    by (simp add: bridging_manager_def)
  have nr: "\<not> r_write_raises (datagram_from d h (\<lambda>k. False)) k" for d h k
    by (simp add: datagram_from_def)
  have acc: "4 \<le> length marked_datagram \<and> take 4 marked_datagram = [0x55, 0x55, 0x55, 0x55]"
    by (simp add: marked_datagram_def)
  have len: "length (active_serial_ports bridging_manager) = 2"
    by (simp add: ports)
  note ok = importer_filter [OF rx, of marked_datagram "''192.168.1.2''",
      THEN conjunct2, THEN conjunct2, rule_format]
  have a: "written (entry_port (active_serial_ports
      (udp_to_serial_iter bridging_manager
         (datagram_from marked_datagram ''192.168.1.2'' (\<lambda>k. False))) ! 0)) = [marked_datagram]"
    using ok [of 0] acc by (simp add: len ip nr) (simp add: ports Serial_new_def)
  have b: "written (entry_port (active_serial_ports
      (udp_to_serial_iter bridging_manager
         (datagram_from marked_datagram ''192.168.1.2'' (\<lambda>k. False))) ! 1)) = [marked_datagram]"
    using ok [of 1] acc by (simp add: len ip nr) (simp add: ports Serial_new_def)
  from importer_filter [OF rx, of marked_datagram "''192.168.1.77''"]
  have c: "udp_to_serial_iter bridging_manager
        (datagram_from marked_datagram ''192.168.1.77'' (\<lambda>k. False)) = bridging_manager"
    by (simp add: ip)
  from importer_filter [OF rx, of "[0x55, 0x55, 0x55]" "''192.168.1.2''"]
  have d: "udp_to_serial_iter bridging_manager
        (datagram_from [0x55, 0x55, 0x55] ''192.168.1.2'' (\<lambda>k. False)) = bridging_manager"
    by simp
  from importer_filter [OF rx, of "[0x55, 0x55, 0x54, 0x55, 0x01]" "''192.168.1.2''"]
  have e: "udp_to_serial_iter bridging_manager
        (datagram_from [0x55, 0x55, 0x54, 0x55, 0x01] ''192.168.1.2'' (\<lambda>k. False))
       = bridging_manager"
    by simp
  from a b c d e show ?thesis by (intro conjI)
qed

text \<open>
  C8. For an accepted datagram the importer calls \<^verbatim>\<open>write\<close> on every open port of
  the fan-out set, whichever of the writes fail: a port whose write raises has the call
  and nothing written, every other open port has the datagram written. No device
  status changes, the ports stay open, the running flag is untouched, and the loop goes
  on to the next receive from the state the fan-out pass has produced.
\<close>

theorem fan_out_survives_write_failures:
  assumes "recvfrom (udp_sock m) io = Inr (data, addr)"
    and "fst addr = dcs_pc_ip m"
    and "is_dcsbios_export_packet data"
  shows "length (active_serial_ports (udp_to_serial_iter m io)) = length (active_serial_ports m)
         \<and> (\<forall>k < length (active_serial_ports m).
               is_open (entry_port (active_serial_ports m ! k)) \<longrightarrow>
               write_calls (entry_port (active_serial_ports (udp_to_serial_iter m io) ! k)) =
                 write_calls (entry_port (active_serial_ports m ! k)) @ [data]
               \<and> written (entry_port (active_serial_ports (udp_to_serial_iter m io) ! k)) =
                 written (entry_port (active_serial_ports m ! k)) @
                   (if r_write_raises io k then [] else [data])
               \<and> is_open (entry_port (active_serial_ports (udp_to_serial_iter m io) ! k)))
         \<and> map status (devices (udp_to_serial_iter m io)) = map status (devices m)
         \<and> running (udp_to_serial_iter m io) = running m
         \<and> (running m \<longrightarrow>
              udp_to_serial_loop m (io # ios) =
                udp_to_serial_loop (udp_to_serial_iter m io) ios)"
proof -
  have ports: "active_serial_ports (udp_to_serial_iter m io) =
      fst (fan_out data io 0 (active_serial_ports m) (devices m))"
    using assms by (simp add: udp_to_serial_iter_cases)
  have each: "write_calls (entry_port (active_serial_ports (udp_to_serial_iter m io) ! k)) =
                 write_calls (entry_port (active_serial_ports m ! k)) @ [data]
               \<and> written (entry_port (active_serial_ports (udp_to_serial_iter m io) ! k)) =
                 written (entry_port (active_serial_ports m ! k)) @
                   (if r_write_raises io k then [] else [data])
               \<and> is_open (entry_port (active_serial_ports (udp_to_serial_iter m io) ! k))"
    if "k < length (active_serial_ports m)" "is_open (entry_port (active_serial_ports m ! k))" for k
  proof -
    have n: "active_serial_ports (udp_to_serial_iter m io) ! k =
        fst (write_entry data io k (active_serial_ports m ! k) [])"
      using ports fan_out_nth [OF that(1), of data io 0 "devices m"] by simp
    from that(2) show ?thesis
      unfolding n by (simp add: write_entry_fst)
  qed
  have st: "map status (devices (udp_to_serial_iter m io)) = map status (devices m)"
    by (rule udp_to_serial_iter_map) simp
  from each st show ?thesis by simp
qed

theorem fan_out_survives_write_failures_witness:
  "write_calls (entry_port (active_serial_ports
      (udp_to_serial_iter bridging_manager
         (datagram_from marked_datagram ''192.168.1.2'' (\<lambda>k. k = 0))) ! 0)) = [marked_datagram]
   \<and> written (entry_port (active_serial_ports
      (udp_to_serial_iter bridging_manager
         (datagram_from marked_datagram ''192.168.1.2'' (\<lambda>k. k = 0))) ! 0)) = []
   \<and> written (entry_port (active_serial_ports
      (udp_to_serial_iter bridging_manager
         (datagram_from marked_datagram ''192.168.1.2'' (\<lambda>k. k = 0))) ! 1)) = [marked_datagram]
   \<and> map status (devices (udp_to_serial_iter bridging_manager
         (datagram_from marked_datagram ''192.168.1.2'' (\<lambda>k. k = 0))))
       = [''Stopped'', ''Stopped'', ''Stopped'']
   \<and> running (udp_to_serial_iter bridging_manager
         (datagram_from marked_datagram ''192.168.1.2'' (\<lambda>k. k = 0)))"
proof -
  let ?io = "datagram_from marked_datagram ''192.168.1.2'' (\<lambda>k. k = 0)"
  have h1: "recvfrom (udp_sock bridging_manager) ?io = Inr (marked_datagram, (''192.168.1.2'', 5010))"
    by (simp add: recvfrom_def bridging_manager_def datagram_from_def socket_new_def)
  have h2: "fst (''192.168.1.2'', 5010 :: int) = dcs_pc_ip bridging_manager"
    by (simp add: bridging_manager_def example_manager_def DCSBIOSManager_init_def)
  have h3: "is_dcsbios_export_packet marked_datagram"
    by (simp add: is_dcsbios_export_packet_def marked_datagram_def)
  have ports: "active_serial_ports bridging_manager =
         [\<lparr> entry_name = PStr ''AFCS'', entry_port = Serial_new, entry_device = 0 \<rparr>,
          \<lparr> entry_name = PStr ''ICS'', entry_port = Serial_new, entry_device = 1 \<rparr>]"
    by (simp add: bridging_manager_def)
  have rs: "r_write_raises ?io k = (k = 0)" for k
    by (simp add: datagram_from_def)
  have dv: "map status (devices bridging_manager) = [''Stopped'', ''Stopped'', ''Stopped'']"
    by (simp add: bridging_manager_def example_manager_def example_devices_def
          DeviceConfig_init_def)
  have rn: "running bridging_manager" by (simp add: bridging_manager_def)
  note t = fan_out_survives_write_failures [OF h1 h2 h3]
  from t have a: "write_calls (entry_port (active_serial_ports
      (udp_to_serial_iter bridging_manager ?io) ! 0)) = [marked_datagram]
   \<and> written (entry_port (active_serial_ports
      (udp_to_serial_iter bridging_manager ?io) ! 0)) = []"
    by (simp add: ports rs Serial_new_def)
  from t have b: "written (entry_port (active_serial_ports
      (udp_to_serial_iter bridging_manager ?io) ! 1)) = [marked_datagram]"
    by (simp add: ports rs Serial_new_def)
  from t dv rn have c: "map status (devices (udp_to_serial_iter bridging_manager ?io))
       = [''Stopped'', ''Stopped'', ''Stopped'']
     \<and> running (udp_to_serial_iter bridging_manager ?io)"
    by simp
  from a b c show ?thesis by simp
qed

subsection \<open>The exporter and the threads' footprint\<close>


lemma bytes_scan_crlf: "bytes_scan [13, 10] [10] xs = crlf_to_lf xs"
  by (induction xs rule: crlf_to_lf.induct) auto

lemma bytes_scan_cr: "bytes_scan [13] [10] xs = cr_to_lf xs"
  by (induction xs) (auto simp: cr_to_lf_def)

lemma clean_data_normalize: "clean_data data = normalize_line_endings data"
  by (simp add: clean_data_def bytes_replace_def normalize_line_endings_def
        bytes_scan_crlf bytes_scan_cr)

lemma cr_to_lf_no_cr: "13 \<notin> set (cr_to_lf xs)"
  by (auto simp: cr_to_lf_def)

lemma set_status_length [simp]: "length (set_status ds i s) = length ds"
  by (simp add: set_status_def)

lemma set_last_activity_length [simp]: "length (set_last_activity ds i t) = length ds"
  by (simp add: set_last_activity_def)

lemma set_status_other [simp]: "j \<noteq> i \<Longrightarrow> set_status ds i s ! j = ds ! j"
  by (simp add: set_status_def)

lemma set_last_activity_other [simp]: "j \<noteq> i \<Longrightarrow> set_last_activity ds i t ! j = ds ! j"
  by (simp add: set_last_activity_def)

lemma try_connect_other:
  "j \<noteq> i \<Longrightarrow> devices (fst (fst (try_connect m i ser io))) ! j = devices m ! j"
  by (simp add: try_connect_def split: option.splits)

lemma try_relay_other:
  "j \<noteq> i \<Longrightarrow> devices (fst (try_relay m i io)) ! j = devices m ! j"
  by (simp add: try_relay_def split: sum.splits)

lemma handle_exc_other:
  "j \<noteq> i \<Longrightarrow> devices (fst (handle_exc m i ser e)) ! j = devices m ! j"
  by (cases e) (simp_all add: handle_exc_def)

lemma serial_to_udp_iter_eq:
  "serial_to_udp_iter m i ser io =
     (let c = try_connect m i ser io in
      case snd c of
        Some e \<Rightarrow> handle_exc (fst (fst c)) i (snd (fst c)) e
      | None \<Rightarrow>
          (let r = try_relay (fst (fst c)) i io in
           case snd r of
             Some e \<Rightarrow> handle_exc (fst r) i (snd (fst c)) e
           | None \<Rightarrow> (fst r, snd (fst c))))"
  by (simp add: serial_to_udp_iter_def Let_def split: prod.splits option.splits)

lemma serial_to_udp_iter_other:
  "j \<noteq> i \<Longrightarrow> devices (fst (serial_to_udp_iter m i ser io)) ! j = devices m ! j"
  by (simp add: serial_to_udp_iter_eq Let_def handle_exc_other try_relay_other try_connect_other
        split: option.splits)


lemma serial_to_udp_loop_other:
  "j \<noteq> i \<Longrightarrow> devices (fst (serial_to_udp_loop m i ser ios)) ! j = devices m ! j"
proof (induction ios arbitrary: m ser)
  case Nil
  then show ?case by (simp add: serial_to_udp_exit_def)
next
  case (Cons io ios)
  obtain m' ser' where it: "serial_to_udp_iter m i ser io = (m', ser')"
    by (cases "serial_to_udp_iter m i ser io")
  with serial_to_udp_iter_other [OF Cons.prems, of m ser io]
  have "devices m' ! j = devices m ! j" by simp
  with Cons.IH [OF Cons.prems, of m' ser'] it Cons.prems show ?case
    by (simp add: serial_to_udp_exit_def)
qed

lemma serial_to_udp_other:
  "j \<noteq> i \<Longrightarrow> devices (fst (serial_to_udp m i ios)) ! j = devices m ! j"
  by (simp add: serial_to_udp_def serial_to_udp_loop_other)

lemma write_entry_other:
  "entry_device e \<noteq> i \<Longrightarrow> snd (write_entry data io k e ds) ! i = ds ! i"
  by (simp add: write_entry_snd)

lemma write_entry_device [simp]:
  "entry_device (fst (write_entry data io k e ds)) = entry_device e"
  by (simp add: write_entry_fst)

lemma fan_out_other:
  "\<forall>e \<in> set es. entry_device e \<noteq> i \<Longrightarrow> snd (fan_out data io k es ds) ! i = ds ! i"
proof (induction es arbitrary: k ds)
  case Nil
  then show ?case by simp
next
  case (Cons e es)
  obtain e' ds' where w: "write_entry data io k e ds = (e', ds')" by (cases "write_entry data io k e ds")
  obtain es' ds'' where f: "fan_out data io (Suc k) es ds' = (es', ds'')"
    by (cases "fan_out data io (Suc k) es ds'")
  from Cons.prems have "entry_device e \<noteq> i" by simp
  from write_entry_other [OF this, of data io k ds] w have 1: "ds' ! i = ds ! i" by simp
  from Cons.prems have "\<forall>e \<in> set es. entry_device e \<noteq> i" by simp
  from Cons.IH [OF this, of "Suc k" ds'] f have 2: "ds'' ! i = ds' ! i" by simp
  from w f 1 2 show ?case by simp
qed

lemma fan_out_devices:
  "map entry_device (fst (fan_out data io k es ds)) = map entry_device es"
proof (induction es arbitrary: k ds)
  case Nil
  then show ?case by simp
next
  case (Cons e es)
  obtain e' ds' where w: "write_entry data io k e ds = (e', ds')" by (cases "write_entry data io k e ds")
  obtain es' ds'' where f: "fan_out data io (Suc k) es ds' = (es', ds'')"
    by (cases "fan_out data io (Suc k) es ds'")
  from write_entry_device [of data io k e ds] w have 1: "entry_device e' = entry_device e" by simp
  from Cons.IH [of "Suc k" ds'] f have 2: "map entry_device es' = map entry_device es" by simp
  from w f 1 2 show ?case by simp
qed

lemma udp_to_serial_iter_entry_devices:
  "map entry_device (active_serial_ports (udp_to_serial_iter m io))
     = map entry_device (active_serial_ports m)"
  by (simp add: udp_to_serial_iter_cases fan_out_devices split: sum.splits prod.splits)

lemma udp_to_serial_iter_other:
  "i \<notin> set (map entry_device (active_serial_ports m)) \<Longrightarrow>
   devices (udp_to_serial_iter m io) ! i = devices m ! i"
proof -
  assume "i \<notin> set (map entry_device (active_serial_ports m))"
  then have "\<forall>e \<in> set (active_serial_ports m). entry_device e \<noteq> i" by auto
  then have "snd (fan_out data io 0 (active_serial_ports m) (devices m)) ! i = devices m ! i"
    for data by (rule fan_out_other)
  then show ?thesis
    by (simp add: udp_to_serial_iter_cases split: sum.splits prod.splits)
qed

lemma udp_to_serial_loop_other:
  "i \<notin> set (map entry_device (active_serial_ports m)) \<Longrightarrow>
   devices (udp_to_serial_loop m ios) ! i = devices m ! i"
proof (induction ios arbitrary: m)
  case Nil
  then show ?case by (simp add: udp_to_serial_cleanup_def)
next
  case (Cons io ios)
  from Cons.prems
  have "i \<notin> set (map entry_device (active_serial_ports (udp_to_serial_iter m io)))"
    unfolding udp_to_serial_iter_entry_devices .
  from Cons.IH [OF this] udp_to_serial_iter_other [OF Cons.prems, of io]
  have "devices (udp_to_serial_loop (udp_to_serial_iter m io) ios) ! i = devices m ! i"
    by simp
  then show ?case by (cases "running m") (simp_all add: udp_to_serial_cleanup_def)
qed

lemma open_ports_devices [simp]: "devices (open_ports io k ds m) = devices m"
  by (induction ds arbitrary: k m) (simp_all split: option.splits)

lemma open_ports_entries:
  "e \<in> set (active_serial_ports (open_ports io k ds m)) \<Longrightarrow>
   e \<in> set (active_serial_ports m)
   \<or> (k \<le> entry_device e \<and> entry_device e < k + length ds
       \<and> truthy (enabled (ds ! (entry_device e - k))))"
proof (induction ds arbitrary: k m)
  case Nil
  then show ?case by simp
next
  case (Cons d ds)
  let ?m' = "(if truthy (enabled d) then
          (case o_open io k of
             None \<Rightarrow>
               add_message
                 (m\<lparr>active_serial_ports := active_serial_ports m @
                       [\<lparr> entry_name = name d, entry_port = Serial_new, entry_device = k \<rparr>]\<rparr>)
                 (o_ts io k) (''Opened '' @ py_str (name d) @ '' for UDP forwarding'')
           | Some e \<Rightarrow>
               add_message m (o_ts io k)
                 (''Could not open '' @ py_str (name d) @ '': '' @ e))
        else m)"
  from Cons.prems have "e \<in> set (active_serial_ports (open_ports io (Suc k) ds ?m'))"
    by (simp only: open_ports.simps)
  from Cons.IH [OF this]
  consider (old) "e \<in> set (active_serial_ports ?m')"
    | (new) "Suc k \<le> entry_device e" "entry_device e < Suc k + length ds"
        "truthy (enabled (ds ! (entry_device e - Suc k)))"
    by blast
  then show ?case
  proof cases
    case old
    then have "e \<in> set (active_serial_ports m) \<or> (truthy (enabled d) \<and> entry_device e = k)"
      by (auto split: if_splits option.splits)
    then show ?thesis by auto
  next
    case new
    then have "entry_device e - k = Suc (entry_device e - Suc k)" by arith
    then have "(d # ds) ! (entry_device e - k) = ds ! (entry_device e - Suc k)"
      by simp
    with new show ?thesis by auto
  qed
qed

lemma udp_to_serial_open_entries:
  "e \<in> set (active_serial_ports (udp_to_serial_open m oio)) \<Longrightarrow>
   entry_device e < length (devices m) \<and> truthy (enabled (devices m ! entry_device e))"
  using open_ports_entries [of e oio 0 "devices m" "m\<lparr>active_serial_ports := []\<rparr>"]
  by (simp add: udp_to_serial_open_def)

lemma udp_to_serial_other:
  assumes "\<not> truthy (enabled (devices m ! i))"
  shows "devices (udp_to_serial m oio ios) ! i = devices m ! i"
proof -
  have "i \<notin> set (map entry_device (active_serial_ports (udp_to_serial_open m oio)))"
    using assms udp_to_serial_open_entries [of _ m oio] by auto
  from udp_to_serial_loop_other [OF this, of ios] show ?thesis
    by (simp add: udp_to_serial_def udp_to_serial_open_def)
qed


lemma reachable_example_manager: "reachable example_manager"
proof -
  have "example_manager =
      DCSBIOSManager_init\<lparr>devices := example_devices, dcs_pc_ip := ''192.168.1.2'',
        udp_port := 5010, multicast_group := ''239.255.50.10'', auto_start := False,
        scheduled_reboot_time := None\<rparr>"
    by (simp add: example_manager_def DCSBIOSManager_init_def)
  moreover have "reachable (DCSBIOSManager_init\<lparr>devices := example_devices,
        dcs_pc_ip := ''192.168.1.2'', udp_port := 5010, multicast_group := ''239.255.50.10'',
        auto_start := False, scheduled_reboot_time := None\<rparr>)"
    by (rule r_configure [OF r_init])
  ultimately show ?thesis by simp
qed

lemma set_last_activity_same:
  "i < length ds \<Longrightarrow> last_activity (set_last_activity ds i t ! i) = Some t"
  by (simp add: set_last_activity_def)

subsection \<open>One pass of the exporter that reads a batch\<close>

lemma set_status_same: "i < length ds \<Longrightarrow> status (set_status ds i s ! i) = s"
  by (simp add: set_status_def)

lemma set_status_last_activity:
  "last_activity (set_status ds i s ! j) = last_activity (ds ! j)"
proof (cases "i < length ds")
  case True
  then show ?thesis by (cases "j = i") (simp_all add: set_status_def)
next
  case False
  then have "set_status ds i s = ds"
    unfolding set_status_def by (intro list_update_beyond) simp
  then show ?thesis by simp
qed

lemma try_connect_opens:
  assumes "needs_open ser \<longrightarrow> x_open io = None"
  shows "snd (try_connect m i ser io) = None"
    and "udp_sock (fst (fst (try_connect m i ser io))) = udp_sock m"
    and "dcs_pc_ip (fst (fst (try_connect m i ser io))) = dcs_pc_ip m"
    and "udp_dest_port (fst (fst (try_connect m i ser io))) = udp_dest_port m"
    and "running (fst (fst (try_connect m i ser io))) = running m"
    and "length (devices (fst (fst (try_connect m i ser io)))) = length (devices m)"
    and "last_activity (devices (fst (fst (try_connect m i ser io))) ! i)
           = last_activity (devices m ! i)"
  using assms
  by (cases "needs_open ser"; simp add: try_connect_def set_status_last_activity)+

lemma handle_exc_effect:
  "udp_sock (fst (handle_exc m i ser e)) = udp_sock m"
  "running (fst (handle_exc m i ser e)) = running m"
  "i < length (devices m) \<Longrightarrow> status (devices (fst (handle_exc m i ser e)) ! i) = ''Error''"
  "last_activity (devices (fst (handle_exc m i ser e)) ! i) = last_activity (devices m ! i)"
  by (cases e; simp add: handle_exc_def set_status_same set_status_last_activity)+

lemma serial_to_udp_iter_send_returns:
  assumes "needs_open ser \<longrightarrow> x_open io = None"
    and "x_in_waiting io = Inr n" and "n \<noteq> 0"
    and "x_read io = Inr data" and "data \<noteq> []"
    and "i < length (devices m)"
    and "udp_sock m = Some sk" and "\<not> sock_closed sk" and "x_sendto io = None"
  shows "udp_sock (fst (serial_to_udp_iter m i ser io)) =
           Some (sk\<lparr>sock_sent := sock_sent sk @
                   [(clean_data data, (dcs_pc_ip m, udp_dest_port m))]\<rparr>)"
    and "last_activity (devices (fst (serial_to_udp_iter m i ser io)) ! i) = Some (x_now io)"
proof -
  let ?c = "try_connect m i ser io"
  let ?m1 = "fst (fst ?c)"
  note c = try_connect_opens [OF assms(1), of m i]
  let ?m2 = "?m1\<lparr>udp_sock := Some (sk\<lparr>sock_sent := sock_sent sk @
                   [(clean_data data, (dcs_pc_ip m, udp_dest_port m))]\<rparr>),
               devices := set_last_activity (devices ?m1) i (x_now io)\<rparr>"
  have s: "sendto (udp_sock ?m1) (x_sendto io) (clean_data data)
             (dcs_pc_ip ?m1, udp_dest_port ?m1)
      = Inr (sk\<lparr>sock_sent := sock_sent sk @
                   [(clean_data data, (dcs_pc_ip m, udp_dest_port m))]\<rparr>)"
    using assms(7,8,9) by (simp add: sendto_def c)
  have r: "try_relay ?m1 i io = (?m2, None)"
    using assms(2,3,4,5) by (simp add: try_relay_def s)
  have it: "fst (serial_to_udp_iter m i ser io) = ?m2"
    by (simp add: serial_to_udp_iter_eq Let_def c(1) r)
  show "udp_sock (fst (serial_to_udp_iter m i ser io)) =
           Some (sk\<lparr>sock_sent := sock_sent sk @
                   [(clean_data data, (dcs_pc_ip m, udp_dest_port m))]\<rparr>)"
    by (simp add: it)
  show "last_activity (devices (fst (serial_to_udp_iter m i ser io)) ! i) = Some (x_now io)"
    using assms(6) by (simp add: it set_last_activity_same c(6))
qed

lemma serial_to_udp_iter_send_raises:
  assumes "needs_open ser \<longrightarrow> x_open io = None"
    and "x_in_waiting io = Inr n" and "n \<noteq> 0"
    and "x_read io = Inr data" and "data \<noteq> []"
    and "i < length (devices m)"
    and "sendto (udp_sock m) (x_sendto io) (clean_data data) (dcs_pc_ip m, udp_dest_port m)
           = Inl e"
  shows "udp_sock (fst (serial_to_udp_iter m i ser io)) = udp_sock m"
    and "status (devices (fst (serial_to_udp_iter m i ser io)) ! i) = ''Error''"
    and "last_activity (devices (fst (serial_to_udp_iter m i ser io)) ! i)
           = last_activity (devices m ! i)"
proof -
  let ?c = "try_connect m i ser io"
  let ?m1 = "fst (fst ?c)"
  note c = try_connect_opens [OF assms(1), of m i]
  have s: "sendto (udp_sock ?m1) (x_sendto io) (clean_data data)
             (dcs_pc_ip ?m1, udp_dest_port ?m1) = Inl e"
    using assms(7) by (simp add: c)
  have r: "try_relay ?m1 i io = (?m1, Some e)"
    using assms(2,3,4,5) by (simp add: try_relay_def s)
  have it: "fst (serial_to_udp_iter m i ser io) = fst (handle_exc ?m1 i (snd (fst ?c)) e)"
    by (simp add: serial_to_udp_iter_eq Let_def c(1) r)
  have len: "i < length (devices ?m1)"
    using assms(6) by (simp add: c(6))
  show "udp_sock (fst (serial_to_udp_iter m i ser io)) = udp_sock m"
    by (simp add: it handle_exc_effect(1) c(2))
  show "status (devices (fst (serial_to_udp_iter m i ser io)) ! i) = ''Error''"
    unfolding it using len by (rule handle_exc_effect(3))
  show "last_activity (devices (fst (serial_to_udp_iter m i ser io)) ! i)
           = last_activity (devices m ! i)"
    by (simp add: it handle_exc_effect(4) c(7))
qed

lemma sendto_raises_iff:
  "(\<exists>e. sendto so os data dest = Inl e) \<longleftrightarrow>
     so = None \<or> (\<exists>sk. so = Some sk \<and> sock_closed sk) \<or> os \<noteq> None"
  by (cases so; cases os) (auto simp: sendto_def)

lemma try_connect_running: "running (fst (fst (try_connect m i ser io))) = running m"
  by (simp add: try_connect_def split: option.splits)

lemma try_relay_running: "running (fst (try_relay m i io)) = running m"
  by (simp add: try_relay_def split: sum.splits)

lemma serial_to_udp_iter_running: "running (fst (serial_to_udp_iter m i ser io)) = running m"
  by (simp add: serial_to_udp_iter_eq Let_def handle_exc_effect(2) try_relay_running
        try_connect_running split: option.splits)

lemma serial_to_udp_first_pass:
  assumes "truthy (enabled (devices m ! i))" and "running m"
  shows "fst (serial_to_udp m i [io]) =
           fst (serial_to_udp_iter (m\<lparr>devices := set_status (devices m) i ''Connecting''\<rparr>)
                  i None io)"
proof -
  let ?m1 = "m\<lparr>devices := set_status (devices m) i ''Connecting''\<rparr>"
  obtain m' ser' where it: "serial_to_udp_iter ?m1 i None io = (m', ser')"
    by (cases "serial_to_udp_iter ?m1 i None io")
  have r1: "running ?m1" using assms(2) by simp
  have r2: "running m'"
    using serial_to_udp_iter_running [of ?m1 i None io] r1 by (simp add: it)
  show ?thesis
    using assms(1) r1 r2 by (simp add: serial_to_udp_def it)
qed

section \<open>Serial exporter\<close>

text \<open>
  A batch that is read is not always sent. When creating the socket fails,
  \<^verbatim>\<open>start()\<close> still starts the exporters and there is no socket. The exporter of the
  first device then opens its port, reads five waiting bytes, and the send raises: no
  datagram leaves, the device's status is "Error" and its last-activity stays null.
\<close>

theorem exporter_drops_batch_counterexample:
  "reachable (start example_manager (SocketRaises ''Address family not supported'')
                ''12:00:00'' ''12:00:01'')
   \<and> running (start example_manager (SocketRaises ''Address family not supported'')
                ''12:00:00'' ''12:00:01'')
   \<and> SerialToUdp 0 \<in> set (threads (start example_manager
         (SocketRaises ''Address family not supported'') ''12:00:00'' ''12:00:01''))
   \<and> x_read batch_io = Inr [13, 10, 65, 13, 66]
   \<and> udp_sock (fst (serial_to_udp (start example_manager
         (SocketRaises ''Address family not supported'') ''12:00:00'' ''12:00:01'') 0
         [batch_io])) = None
   \<and> status (devices (fst (serial_to_udp (start example_manager
         (SocketRaises ''Address family not supported'') ''12:00:00'' ''12:00:01'') 0
         [batch_io])) ! 0) = ''Error''
   \<and> last_activity (devices (fst (serial_to_udp (start example_manager
         (SocketRaises ''Address family not supported'') ''12:00:00'' ''12:00:01'') 0
         [batch_io])) ! 0) = None"
proof -
  let ?m = "start example_manager (SocketRaises ''Address family not supported'')
                ''12:00:00'' ''12:00:01''"
  let ?m1 = "?m\<lparr>devices := set_status (devices ?m) 0 ''Connecting''\<rparr>"
  have nr: "\<not> running example_manager"
    by (simp add: example_manager_def DCSBIOSManager_init_def)
  have r: "reachable ?m" by (rule r_start [OF reachable_example_manager])
  have rn: "running ?m" by (rule running_start)
  have dv: "devices ?m = example_devices"
    using nr by (simp add: start_when_stopped example_manager_def)
  have th: "threads ?m = [UdpToSerial, SerialToUdp 0, SerialToUdp 1]"
    using nr
    by (simp add: start_when_stopped upt_rec example_manager_def DCSBIOSManager_init_def
          example_devices_def DeviceConfig_init_def)
  have sock: "udp_sock ?m = None"
    by (simp add: start_def Let_def setup_udp_def example_manager_def DCSBIOSManager_init_def)
  have en: "truthy (enabled (devices ?m ! 0))"
    by (simp add: dv example_devices_def DeviceConfig_init_def)
  have la: "last_activity (devices ?m1 ! 0) = None"
    by (simp add: dv set_status_last_activity example_devices_def DeviceConfig_init_def)
  have h1: "needs_open None \<longrightarrow> x_open batch_io = None" by (simp add: batch_io_def)
  have h2: "x_in_waiting batch_io = Inr 5" by (simp add: batch_io_def)
  have h3: "(5::nat) \<noteq> 0" by simp
  have h4: "x_read batch_io = Inr [13, 10, 65, 13, 66]" by (simp add: batch_io_def)
  have h5: "[13, 10, 65, 13, 66] \<noteq> ([] :: bytes)" by simp
  have h6: "0 < length (devices ?m1)" by (simp add: dv example_devices_def)
  have h7: "sendto (udp_sock ?m1) (x_sendto batch_io) (clean_data [13, 10, 65, 13, 66])
        (dcs_pc_ip ?m1, udp_dest_port ?m1) = Inl (OtherException ''AttributeError'')"
    by (simp add: sendto_def sock)
  note f = serial_to_udp_iter_send_raises [OF h1 h2 h3 h4 h5 h6 h7]
  have p: "fst (serial_to_udp ?m 0 [batch_io]) = fst (serial_to_udp_iter ?m1 0 None batch_io)"
    using en rn by (rule serial_to_udp_first_pass)
  have a: "udp_sock (fst (serial_to_udp ?m 0 [batch_io])) = None"
    unfolding p using f(1) by (simp add: sock)
  have b: "status (devices (fst (serial_to_udp ?m 0 [batch_io])) ! 0) = ''Error''"
    unfolding p by (rule f(2))
  have c: "last_activity (devices (fst (serial_to_udp ?m 0 [batch_io])) ! 0) = None"
    unfolding p using f(3) la by simp
  have d: "SerialToUdp 0 \<in> set (threads ?m)" by (simp add: th)
  from r rn d h4 a b c show ?thesis by (intro conjI)
qed

text \<open>
  C4, as the code has it. In a pass of the exporter loop with an open port (already
  open, or opened in this pass) in which bytes are waiting and the read returns a
  non-empty batch, the exporter makes one send of the batch, with every CR-LF pair
  replaced by LF and then every remaining CR replaced by LF, to the configured simulator
  host and the destination port, which is 7778 in every reachable state. When the send
  returns, exactly that one datagram has been added to what the socket has sent, and
  the device's last-activity is the time read after the send. When the send raises
  (there is no socket, the socket is closed, or the operating system refuses), nothing
  is sent, last-activity is as before and the device's status is "Error".
\<close>

theorem exporter_relays_batch:
  assumes "needs_open ser \<longrightarrow> x_open io = None"
    and "x_in_waiting io = Inr n" and "n \<noteq> 0"
    and "x_read io = Inr data" and "data \<noteq> []"
    and "i < length (devices m)"
  shows "(\<forall>sk. udp_sock m = Some sk \<and> \<not> sock_closed sk \<and> x_sendto io = None \<longrightarrow>
            udp_sock (fst (serial_to_udp_iter m i ser io)) =
              Some (sk\<lparr>sock_sent := sock_sent sk @
                      [(clean_data data, (dcs_pc_ip m, udp_dest_port m))]\<rparr>)
            \<and> last_activity (devices (fst (serial_to_udp_iter m i ser io)) ! i)
                = Some (x_now io))
         \<and> (\<forall>e. sendto (udp_sock m) (x_sendto io) (clean_data data)
                   (dcs_pc_ip m, udp_dest_port m) = Inl e \<longrightarrow>
            udp_sock (fst (serial_to_udp_iter m i ser io)) = udp_sock m
            \<and> status (devices (fst (serial_to_udp_iter m i ser io)) ! i) = ''Error''
            \<and> last_activity (devices (fst (serial_to_udp_iter m i ser io)) ! i)
                = last_activity (devices m ! i))
         \<and> ((\<exists>e. sendto (udp_sock m) (x_sendto io) (clean_data data)
                   (dcs_pc_ip m, udp_dest_port m) = Inl e) \<longleftrightarrow>
              udp_sock m = None \<or> (\<exists>sk. udp_sock m = Some sk \<and> sock_closed sk)
              \<or> x_sendto io \<noteq> None)
         \<and> clean_data data = normalize_line_endings data
         \<and> (reachable m \<longrightarrow> udp_dest_port m = 7778)"
proof -
  have 1: "\<forall>sk. udp_sock m = Some sk \<and> \<not> sock_closed sk \<and> x_sendto io = None \<longrightarrow>
            udp_sock (fst (serial_to_udp_iter m i ser io)) =
              Some (sk\<lparr>sock_sent := sock_sent sk @
                      [(clean_data data, (dcs_pc_ip m, udp_dest_port m))]\<rparr>)
            \<and> last_activity (devices (fst (serial_to_udp_iter m i ser io)) ! i)
                = Some (x_now io)"
  proof (intro allI impI)
    fix sk
    assume h: "udp_sock m = Some sk \<and> \<not> sock_closed sk \<and> x_sendto io = None"
    then have a: "udp_sock m = Some sk" and b: "\<not> sock_closed sk" and c: "x_sendto io = None"
      by simp_all
    from serial_to_udp_iter_send_returns [OF assms a b c]
    show "udp_sock (fst (serial_to_udp_iter m i ser io)) =
              Some (sk\<lparr>sock_sent := sock_sent sk @
                      [(clean_data data, (dcs_pc_ip m, udp_dest_port m))]\<rparr>)
            \<and> last_activity (devices (fst (serial_to_udp_iter m i ser io)) ! i)
                = Some (x_now io)"
      by (intro conjI)
  qed
  have 2: "\<forall>e. sendto (udp_sock m) (x_sendto io) (clean_data data)
                   (dcs_pc_ip m, udp_dest_port m) = Inl e \<longrightarrow>
            udp_sock (fst (serial_to_udp_iter m i ser io)) = udp_sock m
            \<and> status (devices (fst (serial_to_udp_iter m i ser io)) ! i) = ''Error''
            \<and> last_activity (devices (fst (serial_to_udp_iter m i ser io)) ! i)
                = last_activity (devices m ! i)"
  proof (intro allI impI)
    fix e
    assume h: "sendto (udp_sock m) (x_sendto io) (clean_data data)
                   (dcs_pc_ip m, udp_dest_port m) = Inl e"
    from serial_to_udp_iter_send_raises [OF assms h]
    show "udp_sock (fst (serial_to_udp_iter m i ser io)) = udp_sock m
            \<and> status (devices (fst (serial_to_udp_iter m i ser io)) ! i) = ''Error''
            \<and> last_activity (devices (fst (serial_to_udp_iter m i ser io)) ! i)
                = last_activity (devices m ! i)"
      by (intro conjI)
  qed
  have 3: "(\<exists>e. sendto (udp_sock m) (x_sendto io) (clean_data data)
                   (dcs_pc_ip m, udp_dest_port m) = Inl e) \<longleftrightarrow>
              udp_sock m = None \<or> (\<exists>sk. udp_sock m = Some sk \<and> sock_closed sk)
              \<or> x_sendto io \<noteq> None"
    by (rule sendto_raises_iff)
  have 4: "clean_data data = normalize_line_endings data"
    by (rule clean_data_normalize)
  have 5: "reachable m \<longrightarrow> udp_dest_port m = 7778"
    using reachable_manager_inv [of m] by (simp add: manager_inv_def)
  from 1 2 3 4 5 show ?thesis by (intro conjI)
qed

theorem exporter_relays_batch_witness:
  "reachable (start example_manager SetupReturns ''12:00:00'' ''12:00:01'')
   \<and> udp_sock (fst (serial_to_udp_iter
         (start example_manager SetupReturns ''12:00:00'' ''12:00:01'') 0
         (Some Serial_new) batch_io)) =
       Some (socket_new\<lparr>sock_reuse := True, sock_bound := Some (''0.0.0.0'', 5010),
               sock_groups := [''239.255.50.10''],
               sock_sent := [([10, 65, 10, 66], (''192.168.1.2'', 7778))]\<rparr>)
   \<and> last_activity (devices (fst (serial_to_udp_iter
         (start example_manager SetupReturns ''12:00:00'' ''12:00:01'') 0
         (Some Serial_new) batch_io)) ! 0) = Some 100
   \<and> status (devices (fst (serial_to_udp_iter
         (stop (start example_manager SetupReturns ''12:00:00'' ''12:00:01'')
            ''12:00:02'' False ''12:00:03'') 0
         (Some Serial_new) batch_io)) ! 0) = ''Error''"
proof -
  let ?m = "start example_manager SetupReturns ''12:00:00'' ''12:00:01''"
  let ?sk = "socket_new\<lparr>sock_reuse := True, sock_bound := Some (''0.0.0.0'', 5010),
               sock_groups := [''239.255.50.10'']\<rparr>"
  let ?st = "stop ?m ''12:00:02'' False ''12:00:03''"
  have nr: "\<not> running example_manager"
    by (simp add: example_manager_def DCSBIOSManager_init_def)
  have h1: "needs_open (Some Serial_new) \<longrightarrow> x_open batch_io = None"
    by (simp add: batch_io_def)
  have h2: "x_in_waiting batch_io = Inr 5" by (simp add: batch_io_def)
  have h3: "(5::nat) \<noteq> 0" by simp
  have h4: "x_read batch_io = Inr [13, 10, 65, 13, 66]" by (simp add: batch_io_def)
  have h5: "[13, 10, 65, 13, 66] \<noteq> ([] :: bytes)" by simp
  have sock: "udp_sock ?m = Some ?sk"
    by (simp add: start_def Let_def setup_udp_def example_manager_def DCSBIOSManager_init_def)
  have open_sk: "\<not> sock_closed ?sk" by (simp add: socket_new_def)
  have os: "x_sendto batch_io = None" by (simp add: batch_io_def)
  have dv: "devices ?m = example_devices"
    using nr by (simp add: start_when_stopped example_manager_def)
  have h6: "0 < length (devices ?m)"
    by (simp add: dv example_devices_def)
  have r: "reachable ?m"
    by (rule r_start [OF reachable_example_manager])
  have ip: "dcs_pc_ip ?m = ''192.168.1.2''"
    by (simp add: start_def Let_def example_manager_def DCSBIOSManager_init_def)
  have nle: "normalize_line_endings [13, 10, 65, 13, 66] = [10, 65, 10, 66]"
    by (simp add: normalize_line_endings_def cr_to_lf_def)
  have now: "x_now batch_io = 100" by (simp add: batch_io_def)
  note t = exporter_relays_batch [OF h1 h2 h3 h4 h5 h6]
  from t have port: "reachable ?m \<longrightarrow> udp_dest_port ?m = 7778"
    by (rule conjunct2 [THEN conjunct2, THEN conjunct2, THEN conjunct2])
  with r have port: "udp_dest_port ?m = 7778" by simp
  from t have cl: "clean_data [13, 10, 65, 13, 66] = normalize_line_endings [13, 10, 65, 13, 66]"
    by (rule conjunct2 [THEN conjunct2, THEN conjunct2, THEN conjunct1])
  from t have "udp_sock ?m = Some ?sk \<and> \<not> sock_closed ?sk \<and> x_sendto batch_io = None \<longrightarrow>
            udp_sock (fst (serial_to_udp_iter ?m 0 (Some Serial_new) batch_io)) =
              Some (?sk\<lparr>sock_sent := sock_sent ?sk @
                      [(clean_data [13, 10, 65, 13, 66], (dcs_pc_ip ?m, udp_dest_port ?m))]\<rparr>)
            \<and> last_activity (devices (fst (serial_to_udp_iter ?m 0 (Some Serial_new) batch_io)) ! 0)
                = Some (x_now batch_io)"
    by (rule conjunct1 [THEN spec])
  with sock open_sk os
  have ok: "udp_sock (fst (serial_to_udp_iter ?m 0 (Some Serial_new) batch_io)) =
              Some (?sk\<lparr>sock_sent := sock_sent ?sk @
                      [(clean_data [13, 10, 65, 13, 66], (dcs_pc_ip ?m, udp_dest_port ?m))]\<rparr>)"
    and b: "last_activity (devices (fst (serial_to_udp_iter ?m 0 (Some Serial_new) batch_io)) ! 0)
                = Some 100"
    by (simp_all only: now simp_thms)
  from ok have a: "udp_sock (fst (serial_to_udp_iter ?m 0 (Some Serial_new) batch_io)) =
       Some (?sk\<lparr>sock_sent := [([10, 65, 10, 66], (''192.168.1.2'', 7778))]\<rparr>)"
    by (simp add: cl nle ip port socket_new_def)
  have rn: "running ?m" by (rule running_start)
  have dvs: "devices ?st = map (\<lambda>d. d\<lparr>status := ''Stopped''\<rparr>) (devices ?m)"
    using rn by (simp add: stop_def Let_def)
  have h6': "0 < length (devices ?st)"
    by (simp add: dvs dv example_devices_def)
  have socks: "udp_sock ?st = Some (?sk\<lparr>sock_closed := True\<rparr>)"
    using rn by (simp add: stop_def Let_def close_socket_def sock)
  have raises: "sendto (udp_sock ?st) (x_sendto batch_io) (clean_data [13, 10, 65, 13, 66])
      (dcs_pc_ip ?st, udp_dest_port ?st) = Inl (OtherException ''OSError'')"
    by (simp add: sendto_def socks)
  note t' = exporter_relays_batch [OF h1 h2 h3 h4 h5 h6']
  from t' have "sendto (udp_sock ?st) (x_sendto batch_io) (clean_data [13, 10, 65, 13, 66])
                   (dcs_pc_ip ?st, udp_dest_port ?st) = Inl (OtherException ''OSError'') \<longrightarrow>
            udp_sock (fst (serial_to_udp_iter ?st 0 (Some Serial_new) batch_io)) = udp_sock ?st
            \<and> status (devices (fst (serial_to_udp_iter ?st 0 (Some Serial_new) batch_io)) ! 0)
                = ''Error''
            \<and> last_activity (devices (fst (serial_to_udp_iter ?st 0 (Some Serial_new) batch_io)) ! 0)
                = last_activity (devices ?st ! 0)"
    by (rule conjunct2 [THEN conjunct1, THEN spec])
  with raises
  have c: "status (devices (fst (serial_to_udp_iter ?st 0 (Some Serial_new) batch_io)) ! 0)
                = ''Error''"
    by (simp only: simp_thms)
  from r a b c show ?thesis by (intro conjI)
qed



end
